theory Spec2Isabelle
  imports Complex_Main
begin

section \<open>Errors raised by the Python code\<close>

text \<open>
  Every exception that the modelled functions of
  \<^verbatim>\<open>modelling_mistral_flax.py\<close> (or the library calls they make) can raise is a
  value of this type; a fallible function returns \<open>py_error + 'a\<close>.
\<close>

datatype py_error =
  TypeError | ValueError | AttributeError | AssertionError | ZeroDivisionError | IndexError
  | NotANumber

definition bind_err :: "py_error + 'a \<Rightarrow> ('a \<Rightarrow> py_error + 'b) \<Rightarrow> py_error + 'b" where
  "bind_err m f = (case m of Inl e \<Rightarrow> Inl e | Inr x \<Rightarrow> f x)"

section \<open>Arrays\<close>

text \<open>
  A \<^verbatim>\<open>jax.Array\<close> is its shape and its entries, read through an index with one
  coordinate per axis. Only the entries at indices inside the shape are meaningful.
  Floating-point entries are real (or complex) numbers: casts between float types
  (\<^verbatim>\<open>astype\<close>) are the identity, and rounding is not modelled.
\<close>

record 'a tensor =
  shape :: "nat list"
  elem :: "nat list \<Rightarrow> 'a"

definition valid_index :: "nat list \<Rightarrow> nat list \<Rightarrow> bool" where
  "valid_index sh idx = list_all2 (<) idx sh"

definition tensor_of :: "nat list \<Rightarrow> (nat list \<Rightarrow> 'a) \<Rightarrow> 'a tensor" where
  "tensor_of sh f = \<lparr>shape = sh, elem = f\<rparr>"

definition tmap :: "('a \<Rightarrow> 'b) \<Rightarrow> 'a tensor \<Rightarrow> 'b tensor" where
  "tmap f x = tensor_of (shape x) (\<lambda>idx. f (elem x idx))"

text \<open>Row-major position of an index in a shape, and back.\<close>

fun ravel :: "nat list \<Rightarrow> nat list \<Rightarrow> nat" where
  "ravel (d # ds) (i # is) = i * prod_list ds + ravel ds is"
| "ravel ds is = 0"

fun unravel :: "nat list \<Rightarrow> nat \<Rightarrow> nat list" where
  "unravel [] n = []"
| "unravel (d # ds) n = (n div prod_list ds) # unravel ds (n mod prod_list ds)"

text \<open>
  \<^verbatim>\<open>x.reshape(new)\<close> for a shape without \<open>-1\<close>; jax raises \<^verbatim>\<open>TypeError\<close> when the sizes
  differ.
\<close>

definition reshape :: "'a tensor \<Rightarrow> nat list \<Rightarrow> py_error + 'a tensor" where
  "reshape x new =
     (if prod_list new = prod_list (shape x)
      then Inr (tensor_of new (\<lambda>idx. elem x (unravel (shape x) (ravel new idx))))
      else Inl TypeError)"

text \<open>
  \<^verbatim>\<open>x.reshape(*pre, -1, *post)\<close>: the axis written \<open>-1\<close> takes what is left of the
  size, which the other axes must divide.
\<close>

definition reshape_infer :: "'a tensor \<Rightarrow> nat list \<Rightarrow> nat list \<Rightarrow> py_error + 'a tensor" where
  "reshape_infer x pre post =
     (let known = prod_list pre * prod_list post; total = prod_list (shape x) in
      if known = 0 \<or> total mod known \<noteq> 0 then Inl TypeError
      else reshape x (pre @ [total div known] @ post))"

text \<open>
  Broadcasting of two shapes, aligned at the last axis: two extents agree when they are
  equal or one of them is 1.
\<close>

fun broadcast_rev :: "nat list \<Rightarrow> nat list \<Rightarrow> nat list option" where
  "broadcast_rev [] ys = Some ys"
| "broadcast_rev (x # xs) [] = Some (x # xs)"
| "broadcast_rev (x # xs) (y # ys) =
     (if x = y \<or> x = 1 \<or> y = 1
      then map_option ((#) (if x = 1 then y else x)) (broadcast_rev xs ys)
      else None)"

definition broadcast_shapes :: "nat list \<Rightarrow> nat list \<Rightarrow> nat list option" where
  "broadcast_shapes a b = map_option rev (broadcast_rev (rev a) (rev b))"

text \<open>The index of an operand of shape \<open>sh\<close> that a broadcast result index reads.\<close>

definition broadcast_index :: "nat list \<Rightarrow> nat list \<Rightarrow> nat list" where
  "broadcast_index sh idx =
     map2 (\<lambda>d i. if d = 1 then 0 else i) sh (drop (length idx - length sh) idx)"

text \<open>
  An elementwise binary operation of \<^verbatim>\<open>jax.numpy\<close> (\<^verbatim>\<open>*\<close>, \<^verbatim>\<open>logical_and\<close>); shapes that
  do not broadcast raise \<^verbatim>\<open>TypeError\<close>.
\<close>

definition tmap2 :: "('a \<Rightarrow> 'b \<Rightarrow> 'c) \<Rightarrow> 'a tensor \<Rightarrow> 'b tensor \<Rightarrow> py_error + 'c tensor" where
  "tmap2 f x y =
     (case broadcast_shapes (shape x) (shape y) of
        None \<Rightarrow> Inl TypeError
      | Some sh \<Rightarrow>
          Inr (tensor_of sh (\<lambda>idx. f (elem x (broadcast_index (shape x) idx))
                                    (elem y (broadcast_index (shape y) idx)))))"

text \<open>
  \<^verbatim>\<open>jnp.broadcast_to(x, sh)\<close>: the target may have more axes than \<open>x\<close>, never fewer,
  and every extent of \<open>x\<close> is 1 or the target's; otherwise \<^verbatim>\<open>ValueError\<close>.
\<close>

definition broadcast_to :: "'a tensor \<Rightarrow> nat list \<Rightarrow> py_error + 'a tensor" where
  "broadcast_to x sh =
     (if length (shape x) \<le> length sh
         \<and> list_all2 (\<lambda>d t. d = 1 \<or> d = t) (shape x) (drop (length sh - length (shape x)) sh)
      then Inr (tensor_of sh (\<lambda>idx. elem x (broadcast_index (shape x) idx)))
      else Inl ValueError)"

text \<open>\<^verbatim>\<open>x[..., None, ...]\<close>: a new axis of extent 1 at position \<open>k\<close>.\<close>

definition new_axis :: "'a tensor \<Rightarrow> nat \<Rightarrow> 'a tensor" where
  "new_axis x k =
     tensor_of (take k (shape x) @ [1] @ drop k (shape x))
       (\<lambda>idx. elem x (take k idx @ drop (Suc k) idx))"

text \<open>\<^verbatim>\<open>jnp.repeat(x, n, axis=k)\<close>: every entry along axis \<open>k\<close> is repeated \<open>n\<close> times.\<close>

definition jnp_repeat :: "'a tensor \<Rightarrow> nat \<Rightarrow> nat \<Rightarrow> 'a tensor" where
  "jnp_repeat x n k =
     tensor_of ((shape x)[k := shape x ! k * n]) (\<lambda>idx. elem x (idx[k := idx ! k div n]))"

text \<open>All indices inside a shape, in row-major order.\<close>

fun all_indices :: "nat list \<Rightarrow> nat list list" where
  "all_indices [] = [[]]"
| "all_indices (d # ds) = concat (map (\<lambda>i. map ((#) i) (all_indices ds)) [0..<d])"

text \<open>
  \<^verbatim>\<open>jnp.take(table, ids, axis=0)\<close> in its default mode: an index \<open>i\<close> with
  \<open>-n \<le> i < 0\<close> counts from the end, and an index outside the table reads NaN. NaN is
  not a number of this model: a gather that reads one is the outcome \<open>NotANumber\<close>.
\<close>

definition wrap_index :: "nat \<Rightarrow> int \<Rightarrow> int" where
  "wrap_index n i = (if i < 0 then i + int n else i)"

definition index_in_bounds :: "nat \<Rightarrow> int \<Rightarrow> bool" where
  "index_in_bounds n i = (0 \<le> wrap_index n i \<and> wrap_index n i < int n)"

definition jnp_take :: "'a tensor \<Rightarrow> int tensor \<Rightarrow> py_error + 'a tensor" where
  "jnp_take table ids =
     (case shape table of
        [] \<Rightarrow> Inl ValueError
      | n # rest \<Rightarrow>
          if list_all (\<lambda>pidx. index_in_bounds n (elem ids pidx)) (all_indices (shape ids))
          then Inr (tensor_of (shape ids @ rest)
                 (\<lambda>idx. elem table
                    (nat (wrap_index n (elem ids (take (length (shape ids)) idx)))
                       # drop (length (shape ids)) idx)))
          else Inl NotANumber)"

section \<open>Rotary position encoding\<close>

text \<open>
  \<^verbatim>\<open>precompute_freq_cis(method, dim, end, theta, scaling_factor)\<close>; \<open>dim'\<close> and \<open>end'\<close>
  stand for \<^verbatim>\<open>dim\<close> and \<^verbatim>\<open>end\<close>. \<^verbatim>\<open>b ** x\<close> is \<open>float_power b x\<close>: 1 at
  the exponent 0, \<open>b powr x\<close> for \<open>b > 0\<close>. For \<open>b \<le> 0\<close> and an exponent strictly
  between 0 and 1 the code's value is not a number (\<open>b < 0\<close>) or has an infinite
  reciprocal (\<open>b = 0\<close>), and every row of the table then holds a \<^verbatim>\<open>nan\<close>; so does the
  first row of the \<^verbatim>\<open>linear\<close> table at \<^verbatim>\<open>scaling_factor = 0\<close> (the array division
  \<^verbatim>\<open>t / scaling_factor\<close> does not raise). A table that holds a \<^verbatim>\<open>nan\<close> is the value
  \<open>Inl NotANumber\<close>. The scalar expressions of the \<^verbatim>\<open>dynamic\<close> branch are Python
  floats, whose division by zero raises.
\<close>

definition float_power :: "real \<Rightarrow> real \<Rightarrow> real" where
  "float_power b x = (if x = 0 then 1 else b powr x)"

definition precompute_freq_cis ::
  "string option \<Rightarrow> nat \<Rightarrow> nat \<Rightarrow> real \<Rightarrow> real \<Rightarrow> py_error + complex tensor" where
  "precompute_freq_cis method dim' end' theta scaling_factor =
     (let freq = (\<lambda>k. 1 / (float_power theta (real (2 * k) / real dim')));
          t = (\<lambda>p. real p);
          table = (\<lambda>base n t freq.
                     if 0 < end' \<and> base \<le> 0 \<and> 2 \<le> n then Inl NotANumber
                     else Inr (tensor_of [end', n] (\<lambda>idx. cis (t (idx ! 0) * freq (idx ! 1)))))
      in case method of
           None \<Rightarrow> table theta (dim' div 2) t freq
         | Some m \<Rightarrow>
             if m = ''linear'' then
               (if 0 < end' \<and> scaling_factor = 0 \<and> 1 \<le> dim' div 2 then Inl NotANumber
                else table theta (dim' div 2) (\<lambda>p. t p / scaling_factor) freq)
             else if m = ''dynamic'' then
               (if end' = 0 \<or> dim' = 2 then Inl ZeroDivisionError
                else
                  let base = theta *
                        ((scaling_factor * real end' / real end' - (scaling_factor - 1))
                           powr (real dim' / (real dim' - 2)))
                  in table base ((dim' + 1) div 2) t
                       (\<lambda>k. 1 / (float_power base (real (2 * k) / real dim'))))
             else Inl ValueError)"

text \<open>
  \<^verbatim>\<open>jax.lax.complex(r[..., 0], r[..., 1])\<close> for an array \<open>r\<close> whose last axis has
  extent 2.
\<close>

definition complex_pairs :: "real tensor \<Rightarrow> complex tensor" where
  "complex_pairs r =
     tensor_of (butlast (shape r)) (\<lambda>idx. Complex (elem r (idx @ [0])) (elem r (idx @ [1])))"

text \<open>\<^verbatim>\<open>jnp.stack((jnp.real(z), jnp.imag(z)), axis=-1)\<close>.\<close>

definition stack_re_im :: "complex tensor \<Rightarrow> real tensor" where
  "stack_re_im z =
     tensor_of (shape z @ [2])
       (\<lambda>idx. if last idx = 0 then Re (elem z (butlast idx)) else Im (elem z (butlast idx)))"

text \<open>
  The rotation of \<^verbatim>\<open>apply_rotary_emb\<close>, which the source writes out twice (for
  \<^verbatim>\<open>xq\<close> and for \<^verbatim>\<open>xk\<close>): the product with the table, then real and imaginary
  parts side by side again.
\<close>

definition rotate :: "real tensor \<Rightarrow> complex tensor \<Rightarrow> py_error + real tensor" where
  "rotate reshape_x freq_cis =
     bind_err (tmap2 (*) (complex_pairs reshape_x) freq_cis) (\<lambda>x_out.
       reshape_infer (stack_re_im x_out) (butlast (shape x_out)) [])"

definition apply_rotary_emb ::
  "real tensor \<Rightarrow> real tensor \<Rightarrow> complex tensor \<Rightarrow> py_error + (real tensor \<times> real tensor)" where
  "apply_rotary_emb xq xk freq_cis =
     bind_err (reshape_infer xq (butlast (shape xq)) [2]) (\<lambda>reshape_xq.
     bind_err (reshape_infer xk (butlast (shape xk)) [2]) (\<lambda>reshape_xk.
     bind_err (reshape freq_cis (take 2 (shape freq_cis) @ [1] @ drop 2 (shape freq_cis)))
       (\<lambda>freq_cis.
     bind_err (rotate reshape_xq freq_cis) (\<lambda>xq_out.
     bind_err (rotate reshape_xk freq_cis) (\<lambda>xk_out.
       Inr (xq_out, xk_out))))))"

section \<open>Head replication\<close>

text \<open>\<^verbatim>\<open>repeat_kv(x, n_rep)\<close>; unpacking \<^verbatim>\<open>x.shape\<close> needs four axes.\<close>

definition repeat_kv :: "'a tensor \<Rightarrow> nat \<Rightarrow> py_error + 'a tensor" where
  "repeat_kv x n_rep =
     (case shape x of
        [bs, s, n_kv_heads, head_dim] \<Rightarrow>
          if n_rep = 1 then Inr x
          else reshape (jnp_repeat (new_axis x 2) n_rep 2)
                 [bs, s, n_kv_heads * n_rep, head_dim]
      | _ \<Rightarrow> Inl ValueError)"

section \<open>Python values at the dynamically typed places\<close>

text \<open>
  The decoder stack and the top module build their results with \<^verbatim>\<open>+\<close> and \<^verbatim>\<open>+=\<close> on
  values that are \<^verbatim>\<open>None\<close>, a \<^verbatim>\<open>bool\<close>, an array or a tuple, depending on the flags of
  the call. \<open>'a\<close> is the type of arrays.
\<close>

datatype 'a pyval = PyNone | PyBool bool | PyArr 'a | PyTuple "'a pyval list"

text \<open>
  \<^verbatim>\<open>x + t\<close> and \<^verbatim>\<open>x += t\<close> where \<open>t\<close> is a tuple: the concatenated tuple when \<open>x\<close> is a
  tuple; \<^verbatim>\<open>None\<close>, a \<^verbatim>\<open>bool\<close> and a jax array all raise \<^verbatim>\<open>TypeError\<close>.
\<close>

fun py_add_tuple :: "'a pyval \<Rightarrow> 'a pyval list \<Rightarrow> py_error + 'a pyval" where
  "py_add_tuple (PyTuple xs) ys = Inr (PyTuple (xs @ ys))"
| "py_add_tuple PyNone ys = Inl TypeError"
| "py_add_tuple (PyBool b) ys = Inl TypeError"
| "py_add_tuple (PyArr a) ys = Inl TypeError"

text \<open>
  \<^verbatim>\<open>t + y\<close> and \<^verbatim>\<open>t += y\<close> where \<open>t\<close> is a tuple: the entries of the concatenated tuple
  when \<open>y\<close> is a tuple; a tuple plus \<^verbatim>\<open>None\<close>, a \<^verbatim>\<open>bool\<close> or a jax array raises
  \<^verbatim>\<open>TypeError\<close>.
\<close>

fun py_tuple_add :: "'a pyval list \<Rightarrow> 'a pyval \<Rightarrow> py_error + 'a pyval list" where
  "py_tuple_add xs (PyTuple ys) = Inr (xs @ ys)"
| "py_tuple_add xs PyNone = Inl TypeError"
| "py_tuple_add xs (PyBool b) = Inl TypeError"
| "py_tuple_add xs (PyArr a) = Inl TypeError"

text \<open>
  Truth value of a flag. The flags of this code are \<^verbatim>\<open>None\<close>, a \<^verbatim>\<open>bool\<close> or a tuple;
  the array case is never evaluated.
\<close>

fun py_truthy :: "'a pyval \<Rightarrow> bool" where
  "py_truthy PyNone = False"
| "py_truthy (PyBool b) = b"
| "py_truthy (PyTuple xs) = (xs \<noteq> [])"
| "py_truthy (PyArr a) = True"

text \<open>\<^verbatim>\<open>t[i]\<close> on a tuple with entries \<open>xs\<close>, for an index that is not negative.\<close>

definition py_get :: "'b list \<Rightarrow> nat \<Rightarrow> py_error + 'b" where
  "py_get xs i = (if i < length xs then Inr (xs ! i) else Inl IndexError)"

text \<open>
  An entry of a result tuple used as an array (\<^verbatim>\<open>attention_output[0] + residual\<close>,
  \<^verbatim>\<open>hidden_state = output[0]\<close>). The first entry of every result tuple of this code is
  an array; the other cases do not arise.
\<close>

fun arr_of :: "'a pyval \<Rightarrow> py_error + 'a" where
  "arr_of (PyArr a) = Inr a"
| "arr_of PyNone = Inl TypeError"
| "arr_of (PyBool b) = Inl TypeError"
| "arr_of (PyTuple xs) = Inl TypeError"

section \<open>Decoder layer, decoder stack\<close>

text \<open>
  The result tuple of \<^verbatim>\<open>FlaxMistralAttention.__call__\<close> (its last two lines): the
  projected output, and with \<^verbatim>\<open>output_attentions\<close> the tensor \<^verbatim>\<open>attn_output\<close> (the
  weighted sum of the values, reshaped), not \<^verbatim>\<open>attn_weight\<close>.
\<close>

definition attention_outputs :: "'a \<Rightarrow> 'a \<Rightarrow> bool \<Rightarrow> 'a pyval list" where
  "attention_outputs out attn_output output_attentions =
     (if output_attentions then [PyArr out, PyArr attn_output] else [PyArr out])"

text \<open>
  The parts of a \<^verbatim>\<open>FlaxMistralDecoderLayer\<close>. \<open>self_attn_core\<close> is the body of the
  attention call up to its result tuple: from the normalised hidden state, the frequency
  table, the attention mask, the causal mask, the position ids and the flags
  \<^verbatim>\<open>deterministic\<close> and \<^verbatim>\<open>init_cache\<close> it gives \<^verbatim>\<open>(out, attn_output)\<close>. Within one
  forward call every layer is called once, so its parameters and its cache entry are
  part of the function.
\<close>

record ('a, 'f, 'm, 'c, 'p) decoder_layer =
  self_attn_core :: "'a \<Rightarrow> 'f \<Rightarrow> 'm \<Rightarrow> 'c \<Rightarrow> 'p \<Rightarrow> bool \<Rightarrow> bool \<Rightarrow> py_error + ('a \<times> 'a)"
  mlp :: "'a \<Rightarrow> py_error + 'a"
  input_layernorm :: "'a \<Rightarrow> py_error + 'a"
  post_attention_layernorm :: "'a \<Rightarrow> py_error + 'a"
  arr_add :: "'a \<Rightarrow> 'a \<Rightarrow> py_error + 'a"

definition self_attn ::
  "('a, 'f, 'm, 'c, 'p) decoder_layer \<Rightarrow> 'a \<Rightarrow> 'f \<Rightarrow> 'm \<Rightarrow> 'c \<Rightarrow> 'p \<Rightarrow> bool \<Rightarrow> bool \<Rightarrow> bool
     \<Rightarrow> py_error + 'a pyval list" where
  "self_attn L hidden_state freq_cis attention_mask causal_mask position_ids
      deterministic init_cache output_attentions =
     bind_err (self_attn_core L hidden_state freq_cis attention_mask causal_mask position_ids
                 deterministic init_cache)
       (\<lambda>(out, attn_output). Inr (attention_outputs out attn_output output_attentions))"

text \<open>\<^verbatim>\<open>FlaxMistralDecoderLayer.__call__\<close>; the result is the entries of its tuple.\<close>

definition FlaxMistralDecoderLayer_call ::
  "('a, 'f, 'm, 'c, 'p) decoder_layer \<Rightarrow> 'a \<Rightarrow> 'f \<Rightarrow> 'm \<Rightarrow> 'c \<Rightarrow> 'p \<Rightarrow> bool \<Rightarrow> bool \<Rightarrow> bool
     \<Rightarrow> py_error + 'a pyval list" where
  "FlaxMistralDecoderLayer_call L hidden_state freq_cis attention_mask causal_mask position_ids
      deterministic init_cache output_attentions =
     (let residual = hidden_state in
      bind_err (input_layernorm L hidden_state) (\<lambda>normed.
      bind_err (self_attn L normed freq_cis attention_mask causal_mask position_ids
                  deterministic init_cache output_attentions) (\<lambda>attention_output.
      bind_err (py_get attention_output 0) (\<lambda>a0.
      bind_err (arr_of a0) (\<lambda>out.
      bind_err (arr_add L out residual) (\<lambda>hidden_state.
      bind_err (post_attention_layernorm L hidden_state) (\<lambda>normed2.
      bind_err (mlp L normed2) (\<lambda>m.
      bind_err (arr_add L m hidden_state) (\<lambda>hidden_state.
        (let outputs = [PyArr hidden_state] in
         if output_attentions
         then bind_err (py_get attention_output 1) (\<lambda>a1. py_tuple_add outputs a1)
         else Inr outputs))))))))))"

text \<open>
  A layer as the stack sees it: a function of the eight arguments of the call that
  returns the entries of a tuple.
\<close>

type_synonym ('a, 'f, 'm, 'c, 'p) layer_fn =
  "'a \<Rightarrow> 'f \<Rightarrow> 'm \<Rightarrow> 'c \<Rightarrow> 'p \<Rightarrow> bool \<Rightarrow> bool \<Rightarrow> bool \<Rightarrow> py_error + 'a pyval list"

text \<open>
  The loop of \<^verbatim>\<open>FlaxMistralDecoratorCollection.__call__\<close>. Its state is the hidden
  state, \<^verbatim>\<open>all_hidden_states\<close> and the variable \<^verbatim>\<open>output_attentions\<close>, which the loop
  body reassigns (\<^verbatim>\<open>output_attentions += (output[1],)\<close>); \<^verbatim>\<open>all_attentions\<close> is never
  assigned in the loop.
\<close>

fun collection_loop ::
  "('a, 'f, 'm, 'c, 'p) layer_fn list \<Rightarrow> 'f \<Rightarrow> 'm \<Rightarrow> 'c \<Rightarrow> 'p \<Rightarrow> bool \<Rightarrow> bool \<Rightarrow> bool
     \<Rightarrow> 'a \<Rightarrow> 'a pyval \<Rightarrow> 'a pyval \<Rightarrow> py_error + ('a \<times> 'a pyval)" where
  "collection_loop [] freq_cis attention_mask causal_mask position_ids deterministic init_cache
      output_hidden_states hidden_state all_hidden_states output_attentions =
     Inr (hidden_state, all_hidden_states)"
| "collection_loop (layer # layers) freq_cis attention_mask causal_mask position_ids
      deterministic init_cache output_hidden_states hidden_state all_hidden_states
      output_attentions =
     bind_err (if output_hidden_states
               then py_add_tuple all_hidden_states [PyArr hidden_state]
               else Inr all_hidden_states) (\<lambda>all_hidden_states.
     bind_err (layer hidden_state freq_cis attention_mask causal_mask position_ids
                 deterministic init_cache (py_truthy output_attentions)) (\<lambda>output.
     bind_err (py_get output 0) (\<lambda>h0.
     bind_err (arr_of h0) (\<lambda>hidden_state.
     bind_err (if py_truthy output_attentions
               then bind_err (py_get output 1)
                      (\<lambda>o1. py_add_tuple output_attentions [o1])
               else Inr output_attentions) (\<lambda>output_attentions.
       collection_loop layers freq_cis attention_mask causal_mask position_ids deterministic
         init_cache output_hidden_states hidden_state all_hidden_states
         output_attentions)))))"

text \<open>
  \<^verbatim>\<open>FlaxMistralDecoratorCollection.__call__\<close>: returns
  \<^verbatim>\<open>(hidden_state, all_hidden_states, all_attentions)\<close>.
\<close>

definition FlaxMistralDecoratorCollection_call ::
  "('a, 'f, 'm, 'c, 'p) layer_fn list \<Rightarrow> 'a \<Rightarrow> 'f \<Rightarrow> 'm \<Rightarrow> 'c \<Rightarrow> 'p \<Rightarrow> bool \<Rightarrow> bool \<Rightarrow> bool
     \<Rightarrow> bool \<Rightarrow> py_error + ('a \<times> 'a pyval \<times> 'a pyval)" where
  "FlaxMistralDecoratorCollection_call layers hidden_state freq_cis attention_mask causal_mask
      position_ids deterministic init_cache output_attentions output_hidden_states =
     (let all_attentions = (if output_attentions then PyTuple [] else PyNone);
          all_hidden_states = (if output_hidden_states then PyTuple [] else PyNone)
      in bind_err (collection_loop layers freq_cis attention_mask causal_mask position_ids
                     deterministic init_cache output_hidden_states hidden_state
                     all_hidden_states (PyBool output_attentions))
           (\<lambda>(hidden_state, all_hidden_states).
              Inr (hidden_state, all_hidden_states, all_attentions)))"

section \<open>Partition rules (\<^verbatim>\<open>MistralConfig.get_partition_rules\<close>)\<close>

text \<open>
  The rule patterns are Python regular expressions. The fragment that the rules use is
  literals, alternation, concatenation, the dot and the star. \<open>Zero\<close> (the pattern that
  matches nothing) only arises as a derivative.
\<close>

datatype rexp = Zero | Lit string | Dot | Alt rexp rexp | Seq rexp rexp | Star rexp

fun nullable :: "rexp \<Rightarrow> bool" where
  "nullable Zero = False"
| "nullable (Lit s) = (s = [])"
| "nullable Dot = False"
| "nullable (Alt r s) = (nullable r \<or> nullable s)"
| "nullable (Seq r s) = (nullable r \<and> nullable s)"
| "nullable (Star r) = True"

text \<open>Python's dot matches every character but the newline.\<close>

fun deriv :: "char \<Rightarrow> rexp \<Rightarrow> rexp" where
  "deriv c Zero = Zero"
| "deriv c (Lit []) = Zero"
| "deriv c (Lit (x # xs)) = (if c = x then Lit xs else Zero)"
| "deriv c Dot = (if c = CHR 0x0A then Zero else Lit [])"
| "deriv c (Alt r s) = Alt (deriv c r) (deriv c s)"
| "deriv c (Seq r s) =
     (if nullable r then Alt (Seq (deriv c r) s) (deriv c s) else Seq (deriv c r) s)"
| "deriv c (Star r) = Seq (deriv c r) (Star r)"

text \<open>\<open>prefix_match r s\<close>: some prefix of \<open>s\<close> matches \<open>r\<close> (\<^verbatim>\<open>re.match\<close>).\<close>

fun prefix_match :: "rexp \<Rightarrow> string \<Rightarrow> bool" where
  "prefix_match r [] = nullable r"
| "prefix_match r (c # cs) = (nullable r \<or> prefix_match (deriv c r) cs)"

text \<open>\<open>re_search r s\<close>: some substring of \<open>s\<close> matches \<open>r\<close> (\<^verbatim>\<open>re.search\<close>).\<close>

fun re_search :: "rexp \<Rightarrow> string \<Rightarrow> bool" where
  "re_search r [] = prefix_match r []"
| "re_search r (c # cs) = (prefix_match r (c # cs) \<or> re_search r cs)"

text \<open>
  A \<^verbatim>\<open>PartitionSpec\<close> is the tuple of its arguments: a mesh axis name, or \<^verbatim>\<open>None\<close> for
  an axis that is not sharded. \<^verbatim>\<open>PS(None)\<close> is the one-entry tuple \<open>[None]\<close>.
\<close>

type_synonym pspec = "string option list"

definition PS1 :: "string \<Rightarrow> pspec" where
  "PS1 a = [Some a]"

definition PS2 :: "string \<Rightarrow> string \<Rightarrow> pspec" where
  "PS2 a b = [Some a, Some b]"

definition PS_None :: pspec where
  "PS_None = [None]"

definition qkv_proj_kernel :: rexp where
  "qkv_proj_kernel =
     Seq (Lit ''self_attn/'')
       (Seq (Alt (Lit ''q_proj'') (Alt (Lit ''k_proj'') (Lit ''v_proj''))) (Lit ''/kernel''))"

definition get_partition_rules :: "bool \<Rightarrow> (rexp \<times> pspec) list" where
  "get_partition_rules fully_fsdp =
    (if \<not> fully_fsdp then
      [(Lit ''model/embed_tokens/embedding'', PS2 ''dp'' ''fsdp''),
       (qkv_proj_kernel, PS2 ''fsdp'' ''dp''),
       (Lit ''self_attn/o_proj/kernel'', PS2 ''dp'' ''fsdp''),
       (Lit ''mlp/gate_proj/kernel'', PS2 ''fsdp'' ''dp''),
       (Lit ''mlp/down_proj/kernel'', PS2 ''dp'' ''fsdp''),
       (Lit ''mlp/up_proj/kernel'', PS2 ''fsdp'' ''dp''),
       (Lit ''input_layernorm/kernel'', PS_None),
       (Lit ''post_attention_layernorm/kernel'', PS_None),
       (Lit ''model/norm/kernel'', PS_None),
       (Lit ''lm_head/kernel'', PS2 ''fsdp'' ''dp''),
       (Star Dot, PS_None)]
     else
      [(Lit ''model/embed_tokens/embedding'', PS1 ''fsdp''),
       (qkv_proj_kernel, PS1 ''fsdp''),
       (Lit ''self_attn/o_proj/kernel'', PS1 ''fsdp''),
       (Lit ''mlp/gate_proj/kernel'', PS1 ''fsdp''),
       (Lit ''mlp/down_proj/kernel'', PS1 ''fsdp''),
       (Lit ''mlp/up_proj/kernel'', PS1 ''fsdp''),
       (Lit ''input_layernorm/kernel'', PS_None),
       (Lit ''post_attention_layernorm/kernel'', PS_None),
       (Lit ''model/norm/kernel'', PS_None),
       (Lit ''lm_head/kernel'', PS1 ''fsdp''),
       (Star Dot, PS1 ''fsdp'')])"

text \<open>
  Modelled from the spec: the function \<^verbatim>\<open>resolve(tensor_name)\<close> that applies the rules
  is not in the source files at hand (only the rule table is). The spec says it
  ``evaluates rules in declared order, returns the first match''; a name that no rule
  matches resolves to nothing.
\<close>

fun resolve :: "(rexp \<times> pspec) list \<Rightarrow> string \<Rightarrow> pspec option" where
  "resolve [] name = None"
| "resolve ((r, ps) # rules) name = (if re_search r name then Some ps else resolve rules name)"

text \<open>
  The L2 norm of the vector along the last axis of \<open>x\<close> at the leading index \<open>idx\<close>:
  for a query or key tensor, the norm of one head's vector at one position.
\<close>

definition l2_norm_last :: "real tensor \<Rightarrow> nat list \<Rightarrow> real" where
  "l2_norm_last x idx = sqrt (\<Sum>d<last (shape x). (elem x (idx @ [d]))\<^sup>2)"

section \<open>Attention\<close>

text \<open>
  The fields of \<^verbatim>\<open>MistralConfig\<close> that the modelled code reads. Sizes are natural
  numbers.
\<close>

record mistral_config =
  vocab_size :: nat
  hidden_size :: nat
  num_hidden_layers :: nat
  num_attention_heads :: nat
  num_key_value_heads :: nat
  max_position_embeddings :: nat
  rope_theta :: real
  tie_word_embeddings :: bool
  attn_pdrop :: real
  c_max_position_embeddings :: nat

text \<open>
  \<^verbatim>\<open>nn.Dense\<close> without bias: the product of the last axis of \<open>x\<close> with a kernel of
  shape \<open>[features_in, features_out]\<close>.
\<close>

definition dense :: "real tensor \<Rightarrow> real tensor \<Rightarrow> py_error + real tensor" where
  "dense kernel' x =
     (case shape kernel' of
        [fin, fout] \<Rightarrow>
          if shape x \<noteq> [] \<and> last (shape x) = fin
          then Inr (tensor_of (butlast (shape x) @ [fout])
                 (\<lambda>idx. \<Sum>i<fin. elem x (butlast idx @ [i]) * elem kernel' [i, last idx]))
          else Inl TypeError
      | _ \<Rightarrow> Inl TypeError)"

text \<open>The parameters of one \<^verbatim>\<open>FlaxMistralAttention\<close>: the four projection kernels.\<close>

record attention_params =
  q_proj :: "real tensor"
  k_proj :: "real tensor"
  v_proj :: "real tensor"
  o_proj :: "real tensor"

text \<open>
  The \<^verbatim>\<open>cache\<close> collection of one attention module: the variables \<^verbatim>\<open>key\<close>,
  \<^verbatim>\<open>value\<close> and \<^verbatim>\<open>index\<close>. The collection is absent (\<open>None\<close>) until a call with
  \<^verbatim>\<open>init_cache\<close> creates it. \<^verbatim>\<open>index\<close> is a 32-bit signed integer.
\<close>

record kv_cache =
  key :: "real tensor"
  val :: "real tensor"
  index :: int

definition int32 :: "int \<Rightarrow> int" where
  "int32 x = (x + 2 ^ 31) mod 2 ^ 32 - 2 ^ 31"

definition zeros :: "nat list \<Rightarrow> real tensor" where
  "zeros sh = tensor_of sh (\<lambda>idx. 0)"

text \<open>
  \<^verbatim>\<open>jax.lax.dynamic_update_slice(operand, update, start_indices)\<close>: the update must
  have the rank of the operand and fit inside it (\<^verbatim>\<open>TypeError\<close> otherwise); a negative
  start index counts from the end of its axis (the extent is added to it), and each
  start index is then clamped so that the whole update lands inside the operand.
\<close>

definition clamp_start :: "int \<Rightarrow> nat \<Rightarrow> nat \<Rightarrow> nat" where
  "clamp_start start operand_dim update_dim =
     nat (max 0 (min (if start < 0 then start + int operand_dim else start)
                     (int operand_dim - int update_dim)))"

definition clamp_starts :: "int list \<Rightarrow> nat list \<Rightarrow> nat list \<Rightarrow> nat list" where
  "clamp_starts starts operand_shape update_shape =
     map (\<lambda>(s, od, ud). clamp_start s od ud) (zip starts (zip operand_shape update_shape))"

definition in_window :: "nat list \<Rightarrow> nat list \<Rightarrow> nat list \<Rightarrow> bool" where
  "in_window st sizes idx =
     list_all (\<lambda>(i, s, u). s \<le> i \<and> i < s + u) (zip idx (zip st sizes))"

definition dynamic_update_slice ::
  "'a tensor \<Rightarrow> 'a tensor \<Rightarrow> int list \<Rightarrow> py_error + 'a tensor" where
  "dynamic_update_slice operand update starts =
     (if length (shape update) = length (shape operand)
         \<and> length starts = length (shape operand)
         \<and> list_all2 (\<le>) (shape update) (shape operand)
      then
        (let st = clamp_starts starts (shape operand) (shape update) in
         Inr (tensor_of (shape operand)
           (\<lambda>idx. if in_window st (shape update) idx
                  then elem update (map2 (-) idx st)
                  else elem operand idx)))
      else Inl TypeError)"

text \<open>\<^verbatim>\<open>jax.lax.dynamic_slice(operand, start_indices, slice_sizes)\<close>, clamped alike.\<close>

definition dynamic_slice :: "'a tensor \<Rightarrow> int list \<Rightarrow> nat list \<Rightarrow> py_error + 'a tensor" where
  "dynamic_slice operand starts sizes =
     (if length sizes = length (shape operand)
         \<and> length starts = length (shape operand)
         \<and> list_all2 (\<le>) sizes (shape operand)
      then
        (let st = clamp_starts starts (shape operand) sizes in
         Inr (tensor_of sizes (\<lambda>idx. elem operand (map2 (+) idx st))))
      else Inl TypeError)"

text \<open>
  \<^verbatim>\<open>nn.combine_masks(m1, m2)\<close>: asserts that the masks have the same rank, then
  \<^verbatim>\<open>logical_and\<close> with broadcasting. The result (0.0 or 1.0 in the source) is kept as
  a truth value.
\<close>

definition combine_masks :: "bool tensor \<Rightarrow> bool tensor \<Rightarrow> py_error + bool tensor" where
  "combine_masks m1 m2 =
     (if length (shape m1) = length (shape m2) then tmap2 (\<and>) m1 m2 else Inl AssertionError)"

text \<open>
  \<^verbatim>\<open>jnp.expand_dims(x, axis=(-3, -2))\<close>: two new axes of extent 1, the third and the
  second from the end of the result; an array without axes has no such positions.
\<close>

definition expand_dims_m3_m2 :: "'a tensor \<Rightarrow> py_error + 'a tensor" where
  "expand_dims_m3_m2 x =
     (let r = length (shape x) in
      if r = 0 then Inl ValueError
      else Inr (tensor_of (take (r - 1) (shape x) @ [1, 1] @ drop (r - 1) (shape x))
             (\<lambda>idx. elem x (take (r - 1) idx @ drop (r + 1) idx))))"

text \<open>\<^verbatim>\<open>x[:, :, :a, :b]\<close>: needs four axes; the two bounds are clipped to the extents.\<close>

definition slice_2_3 :: "'a tensor \<Rightarrow> nat \<Rightarrow> nat \<Rightarrow> py_error + 'a tensor" where
  "slice_2_3 x a b =
     (case shape x of
        d0 # d1 # d2 # d3 # rest \<Rightarrow>
          Inr (tensor_of (d0 # d1 # min a d2 # min b d3 # rest) (elem x))
      | _ \<Rightarrow> Inl IndexError)"

text \<open>
  \<^verbatim>\<open>nn.make_causal_mask(jnp.ones((1, n)))\<close>: shape \<open>[1, 1, n, n]\<close>, true where the
  query index is at least the key index.
\<close>

definition make_causal_mask :: "nat \<Rightarrow> bool tensor" where
  "make_causal_mask n = tensor_of [1, 1, n, n] (\<lambda>idx. idx ! 3 \<le> idx ! 2)"

text \<open>
  \<^verbatim>\<open>FlaxMistralAttention.concatenate_to_cache_\<close> (a name cannot end in an underscore
  here). The attention mask holds integers;
  zero is false. The result is \<^verbatim>\<open>(q, k, v, attention_mask)\<close> and the cache collection
  after the call.
\<close>

definition concatenate_to_cache ::
  "kv_cache option \<Rightarrow> real tensor \<Rightarrow> real tensor \<Rightarrow> real tensor \<Rightarrow> int tensor
     \<Rightarrow> py_error + ((real tensor \<times> real tensor \<times> real tensor \<times> int tensor) \<times> kv_cache)" where
  "concatenate_to_cache cache q k v attention_mask =
     (case cache of
        None \<Rightarrow>
          Inr ((q, k, v, attention_mask),
               \<lparr>key = zeros (shape k), val = zeros (shape k), index = 0\<rparr>)
      | Some c \<Rightarrow>
          (let sh = shape (key c) in
           if length sh < 3 then Inl ValueError
           else
             (let bd = take (length sh - 3) sh;
                  ml = sh ! (length sh - 3);
                  indices = replicate (length bd) 0 @ [index c, 0, 0]
              in
              bind_err (dynamic_update_slice (key c) k indices) (\<lambda>k.
              bind_err (dynamic_update_slice (val c) v indices) (\<lambda>v.
                if length (shape q) < 2 then Inl IndexError
                else
                  (let num_updated_cache_vector = shape q ! 1;
                       index' = int32 (index c + int num_updated_cache_vector)
                   in
                   bind_err (broadcast_to (tensor_of [ml] (\<lambda>idx. int (idx ! 0) < index'))
                               (bd @ [1, num_updated_cache_vector, ml])) (\<lambda>pad_mask.
                   bind_err (combine_masks pad_mask (tmap (\<lambda>x. x \<noteq> 0) attention_mask))
                     (\<lambda>attention_mask.
                        Inr ((q, k, v, tmap (\<lambda>b. if b then 1 else 0) attention_mask),
                             \<lparr>key = k, val = v, index = index'\<rparr>)))))))))"

text \<open>
  \<^verbatim>\<open>nn.dot_product_attention_weights(query, key, bias, ...)\<close> for the four-axis tensors
  of the attention call, \<open>[batch, length, heads, depth]\<close>: it asserts equal batch, head
  and depth extents, scales the query by \<open>1 / sqrt depth\<close>, contracts the depth axis
  (\<^verbatim>\<open>...qhd,...khd->...hqk\<close>), adds the bias with broadcasting and normalises with
  softmax along the key axis. Without \<^verbatim>\<open>deterministic\<close> and with a dropout rate the
  weights go through \<open>dropout\<close>, which stands for the random mask of that call.
\<close>

definition softmax_last :: "real tensor \<Rightarrow> real tensor" where
  "softmax_last x =
     tensor_of (shape x)
       (\<lambda>idx. exp (elem x idx) / (\<Sum>j<last (shape x). exp (elem x (butlast idx @ [j]))))"

definition dot_product_attention_weights ::
  "real tensor \<Rightarrow> real tensor \<Rightarrow> real tensor \<Rightarrow> bool \<Rightarrow> real \<Rightarrow> (real tensor \<Rightarrow> real tensor)
     \<Rightarrow> py_error + real tensor" where
  "dot_product_attention_weights query key' bias deterministic dropout_rate dropout =
     (case (shape query, shape key') of
        ([b, q_l, h, d], [b', k_l, h', d']) \<Rightarrow>
          if b = b' \<and> h = h' \<and> d = d' then
            bind_err
              (tmap2 (+)
                 (tensor_of [b, h, q_l, k_l]
                    (\<lambda>idx. \<Sum>c<d. elem query [idx ! 0, idx ! 2, idx ! 1, c] / sqrt (real d)
                                    * elem key' [idx ! 0, idx ! 3, idx ! 1, c]))
                 bias)
              (\<lambda>attn_weights.
                 Inr (if \<not> deterministic \<and> dropout_rate > 0
                      then dropout (softmax_last attn_weights)
                      else softmax_last attn_weights))
          else Inl AssertionError
      | _ \<Rightarrow> Inl AssertionError)"

text \<open>
  \<^verbatim>\<open>jnp.einsum("...hqk,...khd->...qhd", attn_weight, v)\<close> for a weight tensor
  \<open>[batch, heads, q, k]\<close> and a value tensor \<open>[batch, k, heads, depth]\<close>.
\<close>

definition einsum_hqk_khd :: "real tensor \<Rightarrow> real tensor \<Rightarrow> py_error + real tensor" where
  "einsum_hqk_khd w v =
     (case (shape w, shape v) of
        ([b, h, q_l, k_l], [b', k_l', h', d]) \<Rightarrow>
          (case broadcast_shapes [b] [b'] of
             Some [bb] \<Rightarrow>
               if h = h' \<and> k_l = k_l' then
                 Inr (tensor_of [bb, q_l, h, d]
                   (\<lambda>idx. \<Sum>j<k_l.
                       elem w (broadcast_index [b] [idx ! 0] @ [idx ! 2, idx ! 1, j])
                     * elem v (broadcast_index [b'] [idx ! 0] @ [j, idx ! 2, idx ! 3])))
               else Inl ValueError
           | _ \<Rightarrow> Inl ValueError)
      | _ \<Rightarrow> Inl ValueError)"

text \<open>
  The mask and bias computation of \<^verbatim>\<open>FlaxMistralAttention.__call__\<close>, from the
  tensors and the cache collection as they are after \<^verbatim>\<open>concatenate_to_cache_\<close>.
  \<open>finfo_min\<close> is \<^verbatim>\<open>jnp.finfo(self.dtype).min\<close>, the most negative finite number of
  the working precision.
\<close>

definition attention_bias ::
  "real \<Rightarrow> kv_cache option \<Rightarrow> nat \<Rightarrow> real tensor \<Rightarrow> real tensor \<Rightarrow> int tensor \<Rightarrow> bool tensor
     \<Rightarrow> py_error + real tensor" where
  "attention_bias finfo_min cache batch_size q k attention_mask causal_mask =
     (if length (shape q) < 2 \<or> length (shape k) < 2 then Inl IndexError
      else
        (let q_l = shape q ! 1; k_l = shape k ! 1 in
         bind_err
           (case cache of
              Some c \<Rightarrow>
                (let mask_shift = index c in
                 if length (shape (key c)) < 2 then Inl IndexError
                 else
                   (let dl = shape (key c) ! 1 in
                    dynamic_slice causal_mask [0, 0, mask_shift, 0] [1, 1, q_l, dl]))
            | None \<Rightarrow> slice_2_3 causal_mask q_l k_l)
           (\<lambda>causal_mask.
         bind_err (broadcast_to causal_mask (batch_size # tl (shape causal_mask)))
           (\<lambda>causal_mask.
         bind_err (expand_dims_m3_m2 attention_mask) (\<lambda>attention_mask.
         bind_err (broadcast_to attention_mask (shape causal_mask)) (\<lambda>attention_mask.
         bind_err (combine_masks (tmap (\<lambda>x. x \<noteq> 0) attention_mask) causal_mask)
           (\<lambda>attention_mask.
              Inr (tmap (\<lambda>allowed. if allowed then 0 else finfo_min) attention_mask))))))))"

text \<open>
  \<^verbatim>\<open>FlaxMistralAttention.setup\<close>: the head dimension and the number of query heads
  per key/value head, both by floor division.
\<close>

definition attention_setup :: "mistral_config \<Rightarrow> py_error + (nat \<times> nat)" where
  "attention_setup config =
     (if num_attention_heads config = 0 \<or> num_key_value_heads config = 0
      then Inl ZeroDivisionError
      else Inr (hidden_size config div num_attention_heads config,
                num_attention_heads config div num_key_value_heads config))"

text \<open>
  \<^verbatim>\<open>FlaxMistralAttention.__call__\<close> is written here in three parts, in the order of
  the source. The sharding constraints are advisory and leave the values as they are.

  First part: projections, split into heads, rotary rotation at the gathered positions,
  head replication.
\<close>

definition attention_qkv ::
  "attention_params \<Rightarrow> nat \<Rightarrow> nat \<Rightarrow> real tensor \<Rightarrow> complex tensor \<Rightarrow> int tensor
     \<Rightarrow> py_error + (real tensor \<times> real tensor \<times> real tensor)" where
  "attention_qkv params head_dim num_key_value_groups hidden_state freq_cis position_ids =
     (let batch_size = shape hidden_state ! 0;
          max_sequence_length = shape hidden_state ! 1
      in
      bind_err (dense (q_proj params) hidden_state) (\<lambda>q.
      bind_err (dense (k_proj params) hidden_state) (\<lambda>k.
      bind_err (dense (v_proj params) hidden_state) (\<lambda>v.
      bind_err (reshape_infer q [batch_size, max_sequence_length] [head_dim]) (\<lambda>q.
      bind_err (reshape_infer k [batch_size, max_sequence_length] [head_dim]) (\<lambda>k.
      bind_err (reshape_infer v [batch_size, max_sequence_length] [head_dim]) (\<lambda>v.
      bind_err (jnp_take freq_cis position_ids) (\<lambda>freq_cis.
      bind_err (apply_rotary_emb q k freq_cis) (\<lambda>(q, k).
      bind_err (repeat_kv k num_key_value_groups) (\<lambda>k.
      bind_err (repeat_kv v num_key_value_groups) (\<lambda>v.
        Inr (q, k, v))))))))))))"

text \<open>
  Second part: the cache step (\<^verbatim>\<open>if self.has_variable('cache', 'key') or init_cache\<close>)
  and the bias. It gives \<^verbatim>\<open>q\<close>, \<^verbatim>\<open>k\<close>, \<^verbatim>\<open>v\<close>, the bias and the cache collection
  after the call.
\<close>

definition cache_and_bias ::
  "real \<Rightarrow> kv_cache option \<Rightarrow> bool \<Rightarrow> nat \<Rightarrow> real tensor \<Rightarrow> real tensor \<Rightarrow> real tensor
     \<Rightarrow> int tensor \<Rightarrow> bool tensor
     \<Rightarrow> py_error + (real tensor \<times> real tensor \<times> real tensor \<times> real tensor \<times> kv_cache option)" where
  "cache_and_bias finfo_min cache init_cache batch_size q k v attention_mask causal_mask =
     bind_err
       (if cache \<noteq> None \<or> init_cache
        then bind_err (concatenate_to_cache cache q k v attention_mask)
               (\<lambda>(r, c). Inr (r, Some c))
        else Inr ((q, k, v, attention_mask), cache))
       (\<lambda>((q, k, v, attention_mask), cache).
     bind_err (attention_bias finfo_min cache batch_size q k attention_mask causal_mask)
       (\<lambda>attention_bias. Inr (q, k, v, attention_bias, cache)))"

text \<open>
  The whole call: the two parts above, then the weights, the weighted sum of the values
  and the output projection. The result is \<^verbatim>\<open>(out, attn_output)\<close> and the cache
  collection after the call.
\<close>

definition FlaxMistralAttention_call ::
  "mistral_config \<Rightarrow> real \<Rightarrow> (real tensor \<Rightarrow> real tensor) \<Rightarrow> attention_params
     \<Rightarrow> kv_cache option \<Rightarrow> real tensor \<Rightarrow> complex tensor \<Rightarrow> int tensor \<Rightarrow> bool tensor
     \<Rightarrow> int tensor \<Rightarrow> bool \<Rightarrow> bool
     \<Rightarrow> py_error + ((real tensor \<times> real tensor) \<times> kv_cache option)" where
  "FlaxMistralAttention_call config finfo_min dropout params cache hidden_state freq_cis
      attention_mask causal_mask position_ids deterministic init_cache =
     bind_err (attention_setup config) (\<lambda>(head_dim, num_key_value_groups).
     if length (shape hidden_state) < 2 then Inl ValueError
     else
       bind_err (attention_qkv params head_dim num_key_value_groups hidden_state freq_cis
                   position_ids) (\<lambda>(q, k, v).
       bind_err (cache_and_bias finfo_min cache init_cache (shape hidden_state ! 0) q k v
                   attention_mask causal_mask) (\<lambda>(q, k, v, attention_bias, cache).
       bind_err (dot_product_attention_weights q k attention_bias deterministic
                   (attn_pdrop config) dropout) (\<lambda>attn_weight.
       bind_err (einsum_hqk_khd attn_weight v) (\<lambda>attn_output.
       bind_err (reshape attn_output (take 2 (shape attn_output) @ [hidden_size config]))
         (\<lambda>attn_output.
       bind_err (dense (o_proj params) attn_output) (\<lambda>out.
         Inr ((out, attn_output), cache))))))))"

section \<open>Attention of one query head against one key/value head\<close>

text \<open>
  These two definitions follow the spec's words, not the code: ``attention computed per
  query head against its assigned original (un-repeated) key/value head''. For batch
  entry \<open>b\<close>, query position \<open>i\<close> and query head \<open>h\<close>, \<open>head_score\<close> is the scaled dot
  product with the key at position \<open>j\<close> of key/value head \<open>g\<close> plus the bias, and
  \<open>head_attention\<close> is the softmax-weighted sum of the values of head \<open>g\<close>, at channel
  \<open>d\<close>. The code side of the comparison is \<open>repeat_kv\<close>,
  \<open>dot_product_attention_weights\<close> and \<open>einsum_hqk_khd\<close>.
\<close>

definition head_score ::
  "real tensor \<Rightarrow> real tensor \<Rightarrow> real tensor \<Rightarrow> nat \<Rightarrow> nat \<Rightarrow> nat \<Rightarrow> nat \<Rightarrow> nat \<Rightarrow> real" where
  "head_score q k bias b i h g j =
     (\<Sum>c<last (shape q). elem q [b, i, h, c] / sqrt (real (last (shape q))) * elem k [b, j, g, c])
       + elem bias [b, 0, i, j]"

definition head_attention ::
  "real tensor \<Rightarrow> real tensor \<Rightarrow> real tensor \<Rightarrow> real tensor \<Rightarrow> nat \<Rightarrow> nat \<Rightarrow> nat \<Rightarrow> nat \<Rightarrow> nat
     \<Rightarrow> real" where
  "head_attention q k v bias b i h g d =
     (\<Sum>j<shape k ! 1.
        exp (head_score q k bias b i h g j)
          / (\<Sum>j'<shape k ! 1. exp (head_score q k bias b i h g j'))
        * elem v [b, j, g, d])"

section \<open>The shape of the cache, and an example configuration\<close>

text \<open>
  What holds of a layer's cache collection for a batch size and a cache length: both
  buffers have the replicated head count \<^verbatim>\<open>num_key_value_heads * num_key_value_groups\<close>
  (the keys and values are replicated before they are cached) and the head dimension of
  the configuration, and the cursor is not negative.
\<close>

definition cache_shape_invariant :: "mistral_config \<Rightarrow> nat \<Rightarrow> nat \<Rightarrow> kv_cache \<Rightarrow> bool" where
  "cache_shape_invariant config batch max_len c \<longleftrightarrow>
     shape (key c) = [batch, max_len,
        num_key_value_heads config * (num_attention_heads config div num_key_value_heads config),
        hidden_size config div num_attention_heads config] \<and>
     shape (val c) = shape (key c) \<and>
     0 \<le> index c"

text \<open>
  The sizes of the spec's end-to-end example: hidden size 8, two query heads, one
  key/value head, head dimension 4, batch 1, sequence length 3. The table is the one that
  \<^verbatim>\<open>precompute_freq_cis(None, 4, 6)\<close> builds.
\<close>

definition example_config :: mistral_config where
  "example_config =
     \<lparr>vocab_size = 16, hidden_size = 8, num_hidden_layers = 1, num_attention_heads = 2,
      num_key_value_heads = 1, max_position_embeddings = 3, rope_theta = 10000,
      tie_word_embeddings = False, attn_pdrop = 0, c_max_position_embeddings = 3\<rparr>"

definition example_params :: attention_params where
  "example_params =
     \<lparr>q_proj = tensor_of [8, 8] (\<lambda>idx. 1), k_proj = tensor_of [8, 4] (\<lambda>idx. 1),
      v_proj = tensor_of [8, 4] (\<lambda>idx. 1), o_proj = tensor_of [8, 8] (\<lambda>idx. 1)\<rparr>"

definition example_table :: "complex tensor" where
  "example_table =
     tensor_of [6, 2] (\<lambda>idx. cis (real (idx ! 0) * (1 / (float_power 10000 (real (2 * (idx ! 1)) / 4)))))"

definition example_position_ids :: "int tensor" where
  "example_position_ids = tensor_of [1, 3] (\<lambda>idx. int (idx ! 1))"

section \<open>The model and the language-model head\<close>

text \<open>
  \<^verbatim>\<open>FlaxMistralModule.setup\<close> builds the frequency table with
  \<^verbatim>\<open>precompute_freq_cis(method=None, scaling_factor=1.0, dim=hidden_size // num_attention_heads,
  end=max_position_embeddings * 2)\<close>; \<^verbatim>\<open>theta\<close> is not passed and takes its default
  \<^verbatim>\<open>10000.0\<close>.
\<close>

definition module_freq_cis :: "mistral_config \<Rightarrow> py_error + complex tensor" where
  "module_freq_cis config =
     (if num_attention_heads config = 0 then Inl ZeroDivisionError
      else precompute_freq_cis None (hidden_size config div num_attention_heads config)
             (max_position_embeddings config * 2) 10000 1)"

text \<open>
  A \<^verbatim>\<open>FlaxMistralModule\<close> after \<^verbatim>\<open>setup\<close>: the embedding, the layers of the decoder
  stack, the final norm, the frequency table and the causal mask (the attributes
  \<^verbatim>\<open>embed_tokens\<close>, \<^verbatim>\<open>layers\<close>, \<^verbatim>\<open>norm\<close>, \<^verbatim>\<open>freq_cis\<close> and \<^verbatim>\<open>causal_mask\<close>). \<open>'a\<close> is the type of
  hidden-state arrays, \<open>'p\<close> of position ids.
\<close>

record ('a, 'p) mistral_module =
  m_embed_tokens :: "int tensor \<Rightarrow> py_error + 'a"
  m_layers :: "('a, complex tensor, int tensor, bool tensor, 'p) layer_fn list"
  m_norm :: "'a \<Rightarrow> py_error + 'a"
  m_freq_cis :: "complex tensor"
  m_causal_mask :: "bool tensor"

definition FlaxMistralModule_setup ::
  "mistral_config \<Rightarrow> (int tensor \<Rightarrow> py_error + 'a)
     \<Rightarrow> ('a, complex tensor, int tensor, bool tensor, 'p) layer_fn list \<Rightarrow> ('a \<Rightarrow> py_error + 'a)
     \<Rightarrow> py_error + ('a, 'p) mistral_module" where
  "FlaxMistralModule_setup config embedding layer_fns final_norm =
     bind_err (module_freq_cis config) (\<lambda>table.
       Inr \<lparr>m_embed_tokens = embedding, m_layers = layer_fns, m_norm = final_norm, m_freq_cis = table,
            m_causal_mask = make_causal_mask (c_max_position_embeddings config)\<rparr>)"

text \<open>
  What \<^verbatim>\<open>FlaxMistralModule.__call__\<close> returns: a tuple of the entries that are not
  \<^verbatim>\<open>None\<close>, or a \<^verbatim>\<open>FlaxBaseModelOutput\<close> with its three fields.
\<close>

datatype 'a model_output =
  OutTuple "'a pyval list"
| FlaxBaseModelOutput (last_hidden_state: 'a) (hidden_states: "'a pyval") (attentions: "'a pyval")

text \<open>
  \<^verbatim>\<open>FlaxMistralModule.__call__\<close>. The call of the decoder stack does not pass
  \<^verbatim>\<open>output_hidden_states\<close>, which is \<^verbatim>\<open>False\<close> there by default.
\<close>

definition FlaxMistralModule_call ::
  "('a, 'p) mistral_module \<Rightarrow> int tensor \<Rightarrow> int tensor \<Rightarrow> 'p \<Rightarrow> bool \<Rightarrow> 'a option \<Rightarrow> bool \<Rightarrow> bool
     \<Rightarrow> bool \<Rightarrow> bool \<Rightarrow> py_error + 'a model_output" where
  "FlaxMistralModule_call M input_ids attention_mask position_ids deterministic input_embeds
      init_cache output_attentions output_hidden_states return_dict =
     bind_err (case input_embeds of None \<Rightarrow> m_embed_tokens M input_ids | Some e \<Rightarrow> Inr e)
       (\<lambda>input_embeds.
     bind_err (case shape attention_mask of
                 [b, s] \<Rightarrow> reshape attention_mask [b, 1, 1, s]
               | _ \<Rightarrow> Inr attention_mask) (\<lambda>attention_mask.
     bind_err (FlaxMistralDecoratorCollection_call (m_layers M) input_embeds (m_freq_cis M)
                 attention_mask (m_causal_mask M) position_ids deterministic init_cache
                 output_attentions False) (\<lambda>(h, all_hidden_states, all_attentions).
     bind_err (m_norm M h) (\<lambda>hidden_states.
     bind_err (if output_hidden_states
               then bind_err (py_add_tuple all_hidden_states [PyArr hidden_states])
                      (\<lambda>all_hidden_states.
                         Inr [PyArr hidden_states, all_hidden_states, all_attentions])
               else Inr [PyArr hidden_states, all_hidden_states, all_attentions])
       (\<lambda>outputs.
          if \<not> return_dict then Inr (OutTuple (filter (\<lambda>v. v \<noteq> PyNone) outputs))
          else Inr (FlaxBaseModelOutput hidden_states (outputs ! 1) (last outputs)))))))"

text \<open>
  \<^verbatim>\<open>FlaxMistralForCausalLMModule\<close>: its \<^verbatim>\<open>setup\<close> assigns \<^verbatim>\<open>self.model\<close> and
  \<^verbatim>\<open>self.lm_head\<close>; with the dataclass fields these are the attributes the class
  defines. A name that is none of them (nor one that every flax module has, such as
  \<^verbatim>\<open>variables\<close> or \<^verbatim>\<open>apply\<close>) raises \<^verbatim>\<open>AttributeError\<close>.
\<close>

definition causal_lm_attributes :: "string list" where
  "causal_lm_attributes =
     [''config'', ''dtype'', ''param_dtype'', ''precision'', ''model'', ''lm_head'',
      ''name'', ''parent'', ''scope'', ''variables'', ''apply'', ''init'']"

definition py_getattr :: "string list \<Rightarrow> string \<Rightarrow> py_error + string" where
  "py_getattr attributes name' =
     (if name' \<in> set attributes then Inr name' else Inl AttributeError)"

text \<open>
  The head: \<open>lm_head_apply kernel' x\<close> is the dense layer \<^verbatim>\<open>lm_head\<close> applied with a given
  kernel, \<open>lm_head_kernel\<close> its own kernel, and \<open>shared_kernel_of\<close> what the expression
  \<^verbatim>\<open>.variables["params"]["wte"]["embedding"].T\<close> gives on an attribute.
\<close>

record ('a, 'p, 'k) causal_lm_module =
  lm_model :: "('a, 'p) mistral_module"
  lm_head_kernel :: 'k
  lm_head_apply :: "'k \<Rightarrow> 'a \<Rightarrow> py_error + 'a"
  shared_kernel_of :: "string \<Rightarrow> py_error + 'k"

text \<open>\<^verbatim>\<open>outputs[0]\<close> on what the model returns.\<close>

fun output_first :: "'a model_output \<Rightarrow> py_error + 'a" where
  "output_first (OutTuple xs) = bind_err (py_get xs 0) arr_of"
| "output_first (FlaxBaseModelOutput h hs att) = Inr h"

text \<open>
  What \<^verbatim>\<open>FlaxMistralForCausalLMModule.__call__\<close> returns: \<^verbatim>\<open>(lm_logits,) + outputs[1:]\<close>
  or a \<^verbatim>\<open>FlaxCausalLMOutput\<close>.
\<close>

datatype 'a lm_output =
  LMTuple "'a pyval list"
| FlaxCausalLMOutput (logits: 'a) (lm_hidden_states: "'a pyval") (lm_attentions: "'a pyval")

fun lm_result :: "'a \<Rightarrow> 'a model_output \<Rightarrow> 'a lm_output" where
  "lm_result lm_logits (OutTuple xs) = LMTuple (PyArr lm_logits # tl xs)"
| "lm_result lm_logits (FlaxBaseModelOutput h hs att) = FlaxCausalLMOutput lm_logits hs att"

text \<open>
  \<^verbatim>\<open>FlaxMistralForCausalLMModule.__call__\<close>, for an attention mask and position ids
  that the caller supplies (\<^verbatim>\<open>FlaxMistralPretrainedModel.__call__\<close> always does).
\<close>

definition FlaxMistralForCausalLMModule_call ::
  "mistral_config \<Rightarrow> ('a, 'p, 'k) causal_lm_module \<Rightarrow> int tensor \<Rightarrow> int tensor \<Rightarrow> 'p \<Rightarrow> bool
     \<Rightarrow> 'a option \<Rightarrow> bool \<Rightarrow> bool \<Rightarrow> bool \<Rightarrow> bool \<Rightarrow> py_error + 'a lm_output" where
  "FlaxMistralForCausalLMModule_call config L input_ids attention_mask position_ids
      deterministic input_embeds init_cache output_attentions output_hidden_states return_dict =
     (if length (shape input_ids) \<noteq> 2 then Inl ValueError
      else
        bind_err (FlaxMistralModule_call (lm_model L) input_ids attention_mask position_ids
                    deterministic input_embeds init_cache output_attentions
                    output_hidden_states return_dict) (\<lambda>outputs.
        bind_err (output_first outputs) (\<lambda>hidden_states.
        bind_err (if tie_word_embeddings config
                  then bind_err (py_getattr causal_lm_attributes ''transformer'')
                         (\<lambda>transformer.
                     bind_err (shared_kernel_of L transformer) (\<lambda>shared_kernel.
                       lm_head_apply L shared_kernel hidden_states))
                  else lm_head_apply L (lm_head_kernel L) hidden_states) (\<lambda>lm_logits.
          Inr (lm_result lm_logits outputs)))))"

text \<open>
  The attention of a decoder layer as the layer calls it: \<^verbatim>\<open>FlaxMistralAttention.__call__\<close>
  with the layer's configuration, parameters and cache collection, giving
  \<^verbatim>\<open>(out, attn_output)\<close>. This is what \<open>self_attn_core\<close> of a real layer is.
\<close>

definition attention_core ::
  "mistral_config \<Rightarrow> real \<Rightarrow> (real tensor \<Rightarrow> real tensor) \<Rightarrow> attention_params \<Rightarrow> kv_cache option
     \<Rightarrow> real tensor \<Rightarrow> complex tensor \<Rightarrow> int tensor \<Rightarrow> bool tensor \<Rightarrow> int tensor \<Rightarrow> bool \<Rightarrow> bool
     \<Rightarrow> py_error + (real tensor \<times> real tensor)" where
  "attention_core config finfo_min dropout params cache hidden_state table attention_mask
      causal position_ids deterministic init_cache =
     bind_err (FlaxMistralAttention_call config finfo_min dropout params cache hidden_state table
                 attention_mask causal position_ids deterministic init_cache)
       (\<lambda>(outs, cache'). Inr outs)"

text \<open>
  The score of query \<open>i\<close> and key \<open>j\<close> of head \<open>h\<close> in batch entry \<open>b\<close> before the
  bias is added: the entry of the contraction \<^verbatim>\<open>...qhd,...khd->...hqk\<close> of the scaled
  query with the key in \<open>dot_product_attention_weights\<close>.
\<close>

definition attention_score :: "real tensor \<Rightarrow> real tensor \<Rightarrow> nat \<Rightarrow> nat \<Rightarrow> nat \<Rightarrow> nat \<Rightarrow> real" where
  "attention_score q k b h i j =
     (\<Sum>c<last (shape q). elem q [b, i, h, c] / sqrt (real (last (shape q))) * elem k [b, j, h, c])"

section \<open>Sharding coverage\<close>

lemma prefix_match_nullable: "nullable r \<Longrightarrow> prefix_match r s"
  by (cases s) simp_all

lemma re_search_nullable: "nullable r \<Longrightarrow> re_search r s"
  by (cases s) (simp_all add: prefix_match_nullable)

lemma re_search_wildcard: "re_search (Star Dot) name"
  by (rule re_search_nullable) simp

lemma resolve_balanced_q_proj:
  "resolve (get_partition_rules False) ''model/layers/0/self_attn/q_proj/kernel''
     = Some [Some ''fsdp'', Some ''dp'']"
  by (simp add: get_partition_rules_def qkv_proj_kernel_def PS2_def PS1_def PS_None_def)

lemma resolve_balanced_norm:
  "resolve (get_partition_rules False) ''model/norm/kernel'' = Some [None]"
  by (simp add: get_partition_rules_def qkv_proj_kernel_def PS2_def PS1_def PS_None_def)

text \<open>
  Claim C10. Under both profiles, resolving any tensor name against the rules of
  \<^verbatim>\<open>get_partition_rules\<close> in declared order returns the axis tuple of the first
  matching rule; the trailing rule \<^verbatim>\<open>.*\<close> matches every name, so every name
  resolves, and the tuple returned has at least one entry.
\<close>

theorem sharding_coverage:
  "\<exists>ps. resolve (get_partition_rules fully_fsdp) name = Some ps \<and> ps \<noteq> []"
  by (simp add: get_partition_rules_def re_search_wildcard PS1_def PS2_def PS_None_def)

theorem sharding_coverage_witness:
  "(\<exists>ps. resolve (get_partition_rules True) ''lm_head/kernel'' = Some ps \<and> ps \<noteq> [])
   \<and> (\<exists>ps. resolve (get_partition_rules False) ''lm_head/kernel'' = Some ps \<and> ps \<noteq> [])"
  using sharding_coverage [of True "''lm_head/kernel''"]
    sharding_coverage [of False "''lm_head/kernel''"]
  by simp

section \<open>Rotary rotation preserves the norm of every head vector\<close>

lemma div_mult_add_less: "r < (P::nat) \<Longrightarrow> (i * P + r) div P = i"
  by (cases "P = 0") simp_all

lemma mod_mult_add_less: "r < (P::nat) \<Longrightarrow> (i * P + r) mod P = r"
  by simp

lemma ravel_lt:
  "list_all2 (<) pidx pre \<Longrightarrow> ravel s1 i1 < prod_list s1 \<Longrightarrow>
   ravel (pre @ s1) (pidx @ i1) < prod_list (pre @ s1)"
proof (induction rule: list_all2_induct)
  case Nil
  then show ?case by simp
next
  case (Cons i pidx d pre)
  let ?P = "prod_list (pre @ s1)"
  have r: "ravel (pre @ s1) (pidx @ i1) < ?P" using Cons by simp
  have "i * ?P + ravel (pre @ s1) (pidx @ i1) < Suc i * ?P" using r by simp
  also have "\<dots> \<le> d * ?P" using Cons.hyps(1) by (intro mult_le_mono1) simp
  finally show ?case by simp
qed

lemma unravel_ravel_prefix:
  "list_all2 (<) pidx pre \<Longrightarrow> prod_list s1 = prod_list s2 \<Longrightarrow> ravel s1 i1 < prod_list s1 \<Longrightarrow>
   unravel (pre @ s2) (ravel (pre @ s1) (pidx @ i1)) = pidx @ unravel s2 (ravel s1 i1)"
proof (induction rule: list_all2_induct)
  case Nil
  then show ?case by simp
next
  case (Cons i pidx d pre)
  let ?P = "prod_list (pre @ s1)"
  have eq: "prod_list (pre @ s2) = ?P" using Cons.prems by simp
  have r: "ravel (pre @ s1) (pidx @ i1) < ?P"
    using ravel_lt [OF Cons.hyps(2) Cons.prems(2)] .
  have dv: "(i * ?P + ravel (pre @ s1) (pidx @ i1)) div ?P = i"
    using r by (rule div_mult_add_less)
  have md: "(i * ?P + ravel (pre @ s1) (pidx @ i1)) mod ?P = ravel (pre @ s1) (pidx @ i1)"
    using r by (rule mod_mult_add_less)
  have "unravel ((d # pre) @ s2) (ravel ((d # pre) @ s1) ((i # pidx) @ i1))
        = i # unravel (pre @ s2) (ravel (pre @ s1) (pidx @ i1))"
    using dv md eq by (simp del: prod_list.append)
  then show ?case using Cons.IH [OF Cons.prems] by simp
qed


lemma bind_err_Inr [simp]: "bind_err (Inr x) f = f x"
  by (simp add: bind_err_def)

lemma bind_err_Inl [simp]: "bind_err (Inl e) f = Inl e"
  by (simp add: bind_err_def)

lemma tensor_of_sel [simp]: "shape (tensor_of sh f) = sh" "elem (tensor_of sh f) = f"
  by (simp_all add: tensor_of_def)

lemma split_last_axis:
  assumes "shape x = [B, S, H, 2 * m]" "0 < B" "0 < S" "0 < H"
  shows "reshape_infer x [B, S, H] [2] =
           Inr (tensor_of [B, S, H, m, 2]
                  (\<lambda>idx. elem x (unravel [B, S, H, 2 * m] (ravel [B, S, H, m, 2] idx))))"
proof -
  have "(B * (S * (H * (2 * m)))) = (B * (S * (H * 2))) * m" by simp
  then have dv: "(B * (S * (H * (2 * m)))) div (B * (S * (H * 2))) = m"
    and md: "(B * (S * (H * (2 * m)))) mod (B * (S * (H * 2))) = 0"
    using assms(2-4) by simp_all
  show ?thesis
    unfolding reshape_infer_def reshape_def Let_def
    using assms dv md by simp
qed

lemma split_last_axis_elem:
  assumes "b < B" "s < S" "h < H" "k < m" "c < 2"
  shows "unravel [B, S, H, 2 * m] (ravel [B, S, H, m, 2] [b, s, h, k, c]) = [b, s, h, 2 * k + c]"
proof -
  have lt: "ravel [m, 2] [k, c] < prod_list [m, 2]"
  proof -
    have "k * 2 + c < Suc k * 2" using assms(5) by simp
    also have "\<dots> \<le> m * 2" using assms(4) by (intro mult_le_mono1) simp
    finally show ?thesis by simp
  qed
  have "unravel ([B, S, H] @ [2 * m]) (ravel ([B, S, H] @ [m, 2]) ([b, s, h] @ [k, c]))
        = [b, s, h] @ unravel [2 * m] (ravel [m, 2] [k, c])"
    by (rule unravel_ravel_prefix) (use assms lt in simp_all)
  then show ?thesis by (simp add: mult.commute)
qed

lemma merge_last_axes:
  assumes "shape z = [B, S, H, m, 2]" "0 < B" "0 < S" "0 < H"
  shows "reshape_infer z [B, S, H] [] =
           Inr (tensor_of [B, S, H, 2 * m]
                  (\<lambda>idx. elem z (unravel [B, S, H, m, 2] (ravel [B, S, H, 2 * m] idx))))"
proof -
  have "(B * (S * (H * (m * 2)))) = (B * (S * H)) * (2 * m)" by simp
  then have dv: "(B * (S * (H * (m * 2)))) div (B * (S * H)) = 2 * m"
    and md: "(B * (S * (H * (m * 2)))) mod (B * (S * H)) = 0"
    using assms(2-4) by simp_all
  show ?thesis
    unfolding reshape_infer_def reshape_def Let_def
    using assms dv md by (simp add: mult.commute)
qed

lemma merge_last_axes_elem:
  assumes "b < B" "s < S" "h < H" "d < 2 * m"
  shows "unravel [B, S, H, m, 2] (ravel [B, S, H, 2 * m] [b, s, h, d]) = [b, s, h, d div 2, d mod 2]"
proof -
  have "unravel ([B, S, H] @ [m, 2]) (ravel ([B, S, H] @ [2 * m]) ([b, s, h] @ [d]))
        = [b, s, h] @ unravel [m, 2] (ravel [2 * m] [d])"
    by (rule unravel_ravel_prefix) (use assms in simp_all)
  then show ?thesis by simp
qed


lemma broadcast_heads:
  "broadcast_shapes [B, S, H, m] [B, S, Suc 0, m] = Some [B, S, H, m]"
  by (simp add: broadcast_shapes_def)

lemma broadcast_index_heads:
  "b < B \<Longrightarrow> s < S \<Longrightarrow> k < m \<Longrightarrow> broadcast_index [B, S, Suc 0, m] [b, s, h, k] = [b, s, 0, k]"
  by (auto simp add: broadcast_index_def)

lemma broadcast_index_same:
  "b < B \<Longrightarrow> s < S \<Longrightarrow> h < H \<Longrightarrow> k < m \<Longrightarrow> broadcast_index [B, S, H, m] [b, s, h, k] = [b, s, h, k]"
  by (auto simp add: broadcast_index_def)

lemma rotate_elem:
  assumes sh: "shape rx = [B, S, H, m, 2]" "shape fc = [B, S, 1, m]"
    and pos: "0 < B" "0 < S" "0 < H"
  shows "\<exists>out. rotate rx fc = Inr out \<and> shape out = [B, S, H, 2 * m] \<and>
           (\<forall>b<B. \<forall>s<S. \<forall>h<H. \<forall>d<2 * m.
              elem out [b, s, h, d] =
                (let z = Complex (elem rx [b, s, h, d div 2, 0]) (elem rx [b, s, h, d div 2, 1])
                           * elem fc [b, s, 0, d div 2]
                 in if d mod 2 = 0 then Re z else Im z))"
proof -
  define x_out where
    "x_out = tensor_of [B, S, H, m]
       (\<lambda>idx. elem (complex_pairs rx) (broadcast_index [B, S, H, m] idx)
              * elem fc (broadcast_index [B, S, 1, m] idx))"
  have prod: "tmap2 (*) (complex_pairs rx) fc = Inr x_out"
    by (simp add: tmap2_def complex_pairs_def sh broadcast_heads x_out_def)
  define out where
    "out = tensor_of [B, S, H, 2 * m]
       (\<lambda>idx. elem (stack_re_im x_out) (unravel [B, S, H, m, 2] (ravel [B, S, H, 2 * m] idx)))"
  have "shape (stack_re_im x_out) = [B, S, H, m, 2]"
    by (simp add: stack_re_im_def x_out_def)
  from merge_last_axes [OF this pos]
  have r: "rotate rx fc = Inr out"
    by (simp add: rotate_def prod out_def x_out_def)
  have "elem out [b, s, h, d] =
          (let z = Complex (elem rx [b, s, h, d div 2, 0]) (elem rx [b, s, h, d div 2, 1])
                     * elem fc [b, s, 0, d div 2]
           in if d mod 2 = 0 then Re z else Im z)"
    if "b < B" "s < S" "h < H" "d < 2 * m" for b s h d
  proof -
    have k: "d div 2 < m" using that(4) by simp
    have "elem out [b, s, h, d] = elem (stack_re_im x_out) [b, s, h, d div 2, d mod 2]"
      by (simp add: out_def merge_last_axes_elem [OF that] del: ravel.simps unravel.simps)
    then show ?thesis
      using that k
      by (simp add: stack_re_im_def x_out_def broadcast_index_same broadcast_index_heads
          complex_pairs_def Let_def)
  qed
  then show ?thesis using r by (auto simp add: out_def)
qed


lemma sum_pairs: "(\<Sum>d<2 * m. f d) = (\<Sum>k<m. f (2 * k) + f (2 * k + 1))" for f :: "nat \<Rightarrow> real"
  by (induction m) simp_all

lemma rotation_pair_norm:
  assumes "cmod w = 1"
  shows "(Re (Complex x y * w))\<^sup>2 + (Im (Complex x y * w))\<^sup>2 = x\<^sup>2 + y\<^sup>2"
proof -
  have "(Re (Complex x y * w))\<^sup>2 + (Im (Complex x y * w))\<^sup>2 = (cmod (Complex x y * w))\<^sup>2"
    by (simp add: cmod_power2)
  also have "\<dots> = (cmod (Complex x y))\<^sup>2"
    using assms by (simp add: norm_mult)
  also have "\<dots> = x\<^sup>2 + y\<^sup>2"
    by (simp add: cmod_power2)
  finally show ?thesis .
qed

lemma rotated_sum_squares:
  assumes sh: "shape x = [B, S, H, 2 * m]" "shape fc = [B, S, 1, m]"
    and unit: "\<forall>idx. cmod (elem fc idx) = 1"
    and pos: "0 < B" "0 < S" "0 < H"
  shows "\<exists>rx out. reshape_infer x [B, S, H] [2] = Inr rx \<and> rotate rx fc = Inr out \<and>
           shape out = [B, S, H, 2 * m] \<and>
           (\<forall>b<B. \<forall>s<S. \<forall>h<H.
              (\<Sum>d<2 * m. (elem out [b, s, h, d])\<^sup>2) = (\<Sum>d<2 * m. (elem x [b, s, h, d])\<^sup>2))"
proof -
  define rx where
    "rx = tensor_of [B, S, H, m, 2]
            (\<lambda>idx. elem x (unravel [B, S, H, 2 * m] (ravel [B, S, H, m, 2] idx)))"
  have rs: "reshape_infer x [B, S, H] [2] = Inr rx"
    unfolding rx_def by (rule split_last_axis [OF sh(1) pos])
  have rx_elem: "elem rx [b, s, h, k, c] = elem x [b, s, h, 2 * k + c]"
    if "b < B" "s < S" "h < H" "k < m" "c < 2" for b s h k c
    by (simp add: rx_def split_last_axis_elem [OF that] del: ravel.simps unravel.simps)
  have "shape rx = [B, S, H, m, 2]" by (simp add: rx_def)
  from rotate_elem [OF this sh(2) pos]
  obtain out where out: "rotate rx fc = Inr out" "shape out = [B, S, H, 2 * m]"
    and out_elem: "\<And>b s h d. b < B \<Longrightarrow> s < S \<Longrightarrow> h < H \<Longrightarrow> d < 2 * m \<Longrightarrow>
              elem out [b, s, h, d] =
                (let z = Complex (elem rx [b, s, h, d div 2, 0]) (elem rx [b, s, h, d div 2, 1])
                           * elem fc [b, s, 0, d div 2]
                 in if d mod 2 = 0 then Re z else Im z)"
    by blast
  have "(\<Sum>d<2 * m. (elem out [b, s, h, d])\<^sup>2) = (\<Sum>d<2 * m. (elem x [b, s, h, d])\<^sup>2)"
    if bsh: "b < B" "s < S" "h < H" for b s h
  proof -
    have pair: "(elem out [b, s, h, 2 * k])\<^sup>2 + (elem out [b, s, h, 2 * k + 1])\<^sup>2
          = (elem x [b, s, h, 2 * k])\<^sup>2 + (elem x [b, s, h, 2 * k + 1])\<^sup>2"
      if k: "k < m" for k
    proof -
      let ?z = "Complex (elem x [b, s, h, 2 * k]) (elem x [b, s, h, 2 * k + 1])
                  * elem fc [b, s, 0, k]"
      have e0: "elem out [b, s, h, 2 * k] = Re ?z"
        using out_elem [OF bsh, of "2 * k"] k rx_elem [OF bsh k, of 0] rx_elem [OF bsh k, of 1]
        by (simp add: Let_def)
      have e1: "elem out [b, s, h, 2 * k + 1] = Im ?z"
        using out_elem [OF bsh, of "2 * k + 1"] k rx_elem [OF bsh k, of 0]
          rx_elem [OF bsh k, of 1]
        by (simp add: Let_def)
      show ?thesis
        unfolding e0 e1 by (rule rotation_pair_norm) (simp add: unit)
    qed
    show ?thesis
      unfolding sum_pairs by (rule sum.cong) (use pair in simp_all)
  qed
  then show ?thesis using rs out by blast
qed


lemma precompute_freq_cis_unit:
  assumes "precompute_freq_cis method D end' theta scaling_factor = Inr table" "even D"
  shows "shape table = [end', D div 2] \<and> (\<forall>idx. cmod (elem table idx) = 1)"
proof -
  have "(D + 1) div 2 = D div 2" using assms(2) by auto
  then show ?thesis
    using assms(1)
    by (auto simp add: precompute_freq_cis_def Let_def split: option.splits if_splits)
qed

lemma jnp_take_unit:
  assumes "jnp_take table ids = Inr fc" "shape table = [n, m]" "shape ids = [B, S]"
    "\<forall>idx. cmod (elem table idx) = 1"
  shows "shape fc = [B, S, m] \<and> (\<forall>idx. cmod (elem fc idx) = 1)"
  using assms by (auto simp add: jnp_take_def split: if_splits)

lemma add_head_axis_unit:
  assumes "shape fc = [B, S, m]" "\<forall>idx. cmod (elem fc idx) = 1"
  shows "\<exists>fc4. reshape fc (take 2 (shape fc) @ [1] @ drop 2 (shape fc)) = Inr fc4 \<and>
           shape fc4 = [B, S, 1, m] \<and> (\<forall>idx. cmod (elem fc4 idx) = 1)"
  using assms by (simp add: reshape_def)

text \<open>
  Claim C6. For query and key tensors of shapes \<open>[B, S, H, D]\<close> and \<open>[B, S, Hk, D]\<close>
  with an even head dimension \<open>D\<close>, a table built by \<^verbatim>\<open>precompute_freq_cis\<close> for that
  head dimension (any method, length, theta and scaling factor for which it returns), and
  any \<open>[B, S]\<close> array of position ids whose gather from the table succeeds,
  \<^verbatim>\<open>apply_rotary_emb\<close> returns tensors of the same shapes, and the L2 norm of every
  per-head query vector and key vector is exactly the norm of the input vector.
\<close>

theorem rotary_norm_preservation:
  assumes shapes: "shape xq = [B, S, H, D]" "shape xk = [B, S, Hk, D]"
      "shape position_ids = [B, S]"
    and dims: "even D" "0 < B" "0 < S" "0 < H" "0 < Hk"
    and table: "precompute_freq_cis method D end' theta scaling_factor = Inr table"
    and gather: "jnp_take table position_ids = Inr freq_cis"
  shows "\<exists>q k. apply_rotary_emb xq xk freq_cis = Inr (q, k) \<and>
           shape q = shape xq \<and> shape k = shape xk \<and>
           (\<forall>b<B. \<forall>s<S.
              (\<forall>h<H. l2_norm_last q [b, s, h] = l2_norm_last xq [b, s, h]) \<and>
              (\<forall>h<Hk. l2_norm_last k [b, s, h] = l2_norm_last xk [b, s, h]))"
proof -
  from dims(1) obtain m where D: "D = 2 * m" by (elim evenE)
  have m: "D div 2 = m" using D by simp
  from precompute_freq_cis_unit [OF table dims(1)]
  have t: "shape table = [end', m]" "\<forall>idx. cmod (elem table idx) = 1"
    using m by simp_all
  from jnp_take_unit [OF gather t(1) shapes(3) t(2)]
  have fc: "shape freq_cis = [B, S, m]" "\<forall>idx. cmod (elem freq_cis idx) = 1"
    by simp_all
  from add_head_axis_unit [OF fc]
  obtain fc4 where fc4:
    "reshape freq_cis (take 2 (shape freq_cis) @ [1] @ drop 2 (shape freq_cis)) = Inr fc4"
    "shape fc4 = [B, S, 1, m]" "\<forall>idx. cmod (elem fc4 idx) = 1"
    by blast
  from rotated_sum_squares [OF shapes(1) [unfolded D] fc4(2,3) dims(2,3,4)]
  obtain rq q where q: "reshape_infer xq [B, S, H] [2] = Inr rq" "rotate rq fc4 = Inr q"
    "shape q = [B, S, H, 2 * m]"
    "\<And>b s h. b < B \<Longrightarrow> s < S \<Longrightarrow> h < H \<Longrightarrow>
        (\<Sum>d<2 * m. (elem q [b, s, h, d])\<^sup>2) = (\<Sum>d<2 * m. (elem xq [b, s, h, d])\<^sup>2)"
    by blast
  from rotated_sum_squares [OF shapes(2) [unfolded D] fc4(2,3) dims(2,3,5)]
  obtain rk k where k: "reshape_infer xk [B, S, Hk] [2] = Inr rk" "rotate rk fc4 = Inr k"
    "shape k = [B, S, Hk, 2 * m]"
    "\<And>b s h. b < B \<Longrightarrow> s < S \<Longrightarrow> h < Hk \<Longrightarrow>
        (\<Sum>d<2 * m. (elem k [b, s, h, d])\<^sup>2) = (\<Sum>d<2 * m. (elem xk [b, s, h, d])\<^sup>2)"
    by blast
  have call: "apply_rotary_emb xq xk freq_cis = Inr (q, k)"
    using q(1,2) k(1,2) fc4(1) by (simp add: apply_rotary_emb_def shapes)
  have "l2_norm_last q [b, s, h] = l2_norm_last xq [b, s, h]" if "b < B" "s < S" "h < H" for b s h
    using q(4) [OF that] by (simp add: l2_norm_last_def q(3) shapes(1) D)
  moreover
  have "l2_norm_last k [b, s, h] = l2_norm_last xk [b, s, h]" if "b < B" "s < S" "h < Hk" for b s h
    using k(4) [OF that] by (simp add: l2_norm_last_def k(3) shapes(2) D)
  ultimately show ?thesis
    using call q(3) k(3) shapes D by auto
qed


theorem rotary_norm_preservation_witness:
  "\<exists>q k. apply_rotary_emb
            (tensor_of [1, 1, 1, 2] (\<lambda>idx. if idx ! 3 = 0 then 3 else 4))
            (tensor_of [1, 1, 1, 2] (\<lambda>idx. if idx ! 3 = 0 then 0 else 1))
            (projr (jnp_take (projr (precompute_freq_cis None 2 4 10000 1))
                      (tensor_of [1, 1] (\<lambda>idx. 3)))) = Inr (q, k)
         \<and> l2_norm_last q [0, 0, 0] = 5 \<and> l2_norm_last k [0, 0, 0] = 1"
proof -
  let ?xq = "tensor_of [1, 1, 1, 2] (\<lambda>idx. if idx ! 3 = 0 then 3 else 4 :: real)"
  let ?xk = "tensor_of [1, 1, 1, 2] (\<lambda>idx. if idx ! 3 = 0 then 0 else 1 :: real)"
  let ?ids = "tensor_of [1, 1] (\<lambda>idx. 3 :: int)"
  let ?table = "projr (precompute_freq_cis None 2 4 10000 1)"
  let ?fc = "projr (jnp_take ?table ?ids)"
  have t: "precompute_freq_cis None 2 4 10000 1 = Inr ?table"
    by (simp add: precompute_freq_cis_def)
  have g: "jnp_take ?table ?ids = Inr ?fc"
    by (simp add: jnp_take_def precompute_freq_cis_def index_in_bounds_def wrap_index_def)
  have nq: "l2_norm_last ?xq [0, 0, 0] = 5"
  proof -
    have "l2_norm_last ?xq [0, 0, 0] = sqrt (5\<^sup>2)"
      by (simp add: l2_norm_last_def eval_nat_numeral)
    then show ?thesis by simp
  qed
  have nk: "l2_norm_last ?xk [0, 0, 0] = 1"
    by (simp add: l2_norm_last_def eval_nat_numeral)
  from rotary_norm_preservation [of ?xq 1 1 1 2 ?xk 1 ?ids None 4 10000 1 ?table ?fc, OF _ _ _ _ _ _ _ _ t g]
  show ?thesis using nq nk by (auto simp del: One_nat_def)
qed

section \<open>Causal masking\<close>

lemma bind_err_eq_Inr: "bind_err m f = Inr y \<longleftrightarrow> (\<exists>x. m = Inr x \<and> f x = Inr y)"
  by (cases m) simp_all

lemma broadcast_rev_length:
  "broadcast_rev a b = Some sh \<Longrightarrow> length sh = max (length a) (length b)"
proof (induction a b arbitrary: sh rule: broadcast_rev.induct)
  case (1 ys)
  then show ?case by simp
next
  case (2 x xs)
  then show ?case by auto
next
  case (3 x xs y ys)
  then show ?case by (auto split: if_splits)
qed

lemma broadcast_shapes_length:
  "broadcast_shapes a b = Some sh \<Longrightarrow> length sh = max (length a) (length b)"
  by (auto simp add: broadcast_shapes_def dest: broadcast_rev_length)

lemma broadcast_rev_same: "broadcast_rev xs xs = Some xs"
  by (induction xs) simp_all

lemma broadcast_shapes_same: "broadcast_shapes sh sh = Some sh"
  by (simp add: broadcast_shapes_def broadcast_rev_same)

lemma tmap2_rank:
  "tmap2 f x y = Inr z \<Longrightarrow> length (shape z) = max (length (shape x)) (length (shape y))"
  by (auto simp add: tmap2_def split: option.splits dest: broadcast_shapes_length)

lemma tmap_shape [simp]: "shape (tmap f x) = shape x"
  by (simp add: tmap_def)

lemma tmap_elem [simp]: "elem (tmap f x) idx = f (elem x idx)"
  by (simp add: tmap_def)

lemma broadcast_to_shape: "broadcast_to x sh = Inr y \<Longrightarrow> shape y = sh \<and> length (shape x) \<le> length sh"
  by (auto simp add: broadcast_to_def split: if_splits)

lemma concatenate_to_cache_mask_rank:
  assumes "concatenate_to_cache (Some c) q k v attention_mask = Inr ((q', k', v', am'), c')"
  shows "3 \<le> length (shape am')"
proof -
  from assms obtain pad_mask m where
    pm: "broadcast_to (tensor_of [shape (key c) ! (length (shape (key c)) - 3)]
            (\<lambda>idx. int (idx ! 0) < int32 (index c + int (shape q ! 1))))
          (take (length (shape (key c)) - 3) (shape (key c))
             @ [1, shape q ! 1, shape (key c) ! (length (shape (key c)) - 3)]) = Inr pad_mask"
    and cm: "combine_masks pad_mask (tmap (\<lambda>x. x \<noteq> 0) attention_mask) = Inr m"
    and am: "am' = tmap (\<lambda>b. if b then 1 else 0) m"
    by (auto simp add: concatenate_to_cache_def Let_def bind_err_eq_Inr split: if_splits)
  from broadcast_to_shape [OF pm] have "3 \<le> length (shape pad_mask)" by simp
  moreover from cm have "length (shape m) = max (length (shape pad_mask))
      (length (shape (tmap (\<lambda>x. x \<noteq> 0) attention_mask)))"
    by (auto simp add: combine_masks_def split: if_splits dest: tmap2_rank)
  ultimately show ?thesis using am by simp
qed

lemma attention_bias_cached_rank:
  assumes "3 \<le> length (shape attention_mask)"
  shows "attention_bias finfo_min (Some c) batch_size q k attention_mask causal_mask \<noteq> Inr bias"
proof
  assume "attention_bias finfo_min (Some c) batch_size q k attention_mask causal_mask = Inr bias"
  then obtain cm1 cm2 am1 am2 where
    ds: "dynamic_slice causal_mask [0, 0, index c, 0] [1, 1, shape q ! 1, shape (key c) ! 1] = Inr cm1"
    and b1: "broadcast_to cm1 (batch_size # tl (shape cm1)) = Inr cm2"
    and ex: "expand_dims_m3_m2 attention_mask = Inr am1"
    and b2: "broadcast_to am1 (shape cm2) = Inr am2"
    by (auto simp add: attention_bias_def Let_def bind_err_eq_Inr split: if_splits)
  from ds have "shape cm1 = [1, 1, shape q ! 1, shape (key c) ! 1]"
    by (auto simp add: dynamic_slice_def Let_def split: if_splits)
  with broadcast_to_shape [OF b1] have r4: "length (shape cm2) = 4" by simp
  from ex assms have "5 \<le> length (shape am1)"
    by (auto simp add: expand_dims_m3_m2_def Let_def split: if_splits)
  with broadcast_to_shape [OF b2] r4 show False by simp
qed

text \<open>
  A call that finds the cache collection present never gets past the bias: the mask that
  \<^verbatim>\<open>concatenate_to_cache_\<close> returns has the rank of the cache buffers plus nothing
  less than three axes, \<^verbatim>\<open>expand_dims\<close> adds two more, and \<^verbatim>\<open>broadcast_to\<close> refuses a
  target of four axes.
\<close>

lemma cached_call_raises:
  "cache_and_bias finfo_min (Some c) init_cache batch_size q k v attention_mask causal_mask \<noteq> Inr r"
proof
  assume a: "cache_and_bias finfo_min (Some c) init_cache batch_size q k v attention_mask causal_mask = Inr r"
  then obtain q' k' v' am' c' bias where
    cc: "concatenate_to_cache (Some c) q k v attention_mask = Inr ((q', k', v', am'), c')"
    and ab: "attention_bias finfo_min (Some c') batch_size q' k' am' causal_mask = Inr bias"
    by (auto simp add: cache_and_bias_def bind_err_eq_Inr)
  from attention_bias_cached_rank [OF concatenate_to_cache_mask_rank [OF cc]] ab
  show False by blast
qed


lemma broadcast_index_valid4:
  "b < B \<Longrightarrow> h < H \<Longrightarrow> i < Q \<Longrightarrow> j < K \<Longrightarrow> broadcast_index [B, H, Q, K] [b, h, i, j] = [b, h, i, j]"
  by (auto simp add: broadcast_index_def)

lemma causal_window_bias:
  assumes cm1: "shape cm1 = [1, 1, q_l, k_l]"
      "\<And>i j. i < q_l \<Longrightarrow> j < k_l \<Longrightarrow> i < j \<Longrightarrow> \<not> elem cm1 [0, 0, i, j]"
    and b1: "broadcast_to cm1 (batch_size # tl (shape cm1)) = Inr cm2"
    and b2: "broadcast_to (am1 :: int tensor) (shape cm2) = Inr am2"
    and cb: "combine_masks (tmap (\<lambda>x. x \<noteq> 0) am2) cm2 = Inr m"
    and idx: "b < batch_size" "i < q_l" "j < k_l" "i < j"
  shows "shape m = [batch_size, 1, q_l, k_l] \<and> \<not> elem m [b, 0, i, j]"
proof -
  have s2: "shape cm2 = [batch_size, 1, q_l, k_l]"
    using broadcast_to_shape [OF b1] cm1(1) by simp
  have s3: "shape am2 = [batch_size, 1, q_l, k_l]"
    using broadcast_to_shape [OF b2] s2 by simp
  have e2: "elem cm2 [b, 0, i, j] = elem cm1 (broadcast_index [1, 1, q_l, k_l] [b, 0, i, j])"
    using b1 cm1(1) by (auto simp add: broadcast_to_def split: if_splits)
  have "broadcast_index [1, 1, q_l, k_l] [b, 0, i, j] = [0, 0, i, j]"
    using idx by (auto simp add: broadcast_index_def)
  with e2 cm1(2) [OF idx(2,3,4)] have n2: "\<not> elem cm2 [b, 0, i, j]" by simp
  have bi: "broadcast_index [batch_size, 1, q_l, k_l] [b, 0, i, j] = [b, 0, i, j]"
    using idx by (intro broadcast_index_valid4) simp_all
  from cb have m: "m = tensor_of [batch_size, 1, q_l, k_l]
      (\<lambda>idx. elem (tmap (\<lambda>x. x \<noteq> 0) am2) (broadcast_index [batch_size, 1, q_l, k_l] idx)
           \<and> elem cm2 (broadcast_index [batch_size, 1, q_l, k_l] idx))"
    by (simp add: combine_masks_def tmap2_def s2 s3 broadcast_shapes_same del: One_nat_def)
  show ?thesis
    unfolding m using n2 bi by (simp del: One_nat_def)
qed

lemma attention_bias_no_cache:
  assumes ab: "attention_bias finfo_min None batch_size q k attention_mask (make_causal_mask M) = Inr bias"
    and le: "shape q ! 1 \<le> M" "shape k ! 1 \<le> M"
    and idx: "b < batch_size" "i < shape q ! 1" "j < shape k ! 1" "i < j"
  shows "shape bias = [batch_size, 1, shape q ! 1, shape k ! 1] \<and> elem bias [b, 0, i, j] = finfo_min"
proof -
  let ?cm1 = "tensor_of [1, 1, shape q ! 1, shape k ! 1] (elem (make_causal_mask M))"
  have sl: "slice_2_3 (make_causal_mask M) (shape q ! 1) (shape k ! 1) = Inr ?cm1"
    using le by (simp add: slice_2_3_def make_causal_mask_def min_def)
  from ab obtain cm2 am1 am2 m where
    b1: "broadcast_to ?cm1 (batch_size # tl (shape ?cm1)) = Inr cm2"
    and b2: "broadcast_to (am1 :: int tensor) (shape cm2) = Inr am2"
    and cb: "combine_masks (tmap (\<lambda>x. x \<noteq> 0) am2) cm2 = Inr m"
    and bias: "bias = tmap (\<lambda>allowed. if allowed then 0 else finfo_min) m"
    unfolding attention_bias_def Let_def sl
    by (auto simp add: bind_err_eq_Inr split: if_splits)
  have "shape m = [batch_size, 1, shape q ! 1, shape k ! 1] \<and> \<not> elem m [b, 0, i, j]"
    using causal_window_bias [OF _ _ b1 b2 cb idx]
    by (simp add: make_causal_mask_def)
  then show ?thesis by (simp add: bias)
qed

lemma attention_bias_fresh_cache:
  assumes ab: "attention_bias finfo_min
                 (Some \<lparr>key = zeros (shape k), val = zeros (shape k), index = 0\<rparr>)
                 batch_size q k attention_mask (make_causal_mask M) = Inr bias"
    and idx: "b < batch_size" "i < shape q ! 1" "j < shape k ! 1" "i < j"
  shows "shape bias = [batch_size, 1, shape q ! 1, shape k ! 1] \<and> elem bias [b, 0, i, j] = finfo_min"
proof -
  from ab obtain cm1 cm2 am1 am2 m where
    ds: "dynamic_slice (make_causal_mask M) [0, 0, 0, 0] [1, 1, shape q ! 1, shape k ! 1] = Inr cm1"
    and b1: "broadcast_to cm1 (batch_size # tl (shape cm1)) = Inr cm2"
    and b2: "broadcast_to (am1 :: int tensor) (shape cm2) = Inr am2"
    and cb: "combine_masks (tmap (\<lambda>x. x \<noteq> 0) am2) cm2 = Inr m"
    and bias: "bias = tmap (\<lambda>allowed. if allowed then 0 else finfo_min) m"
    by (auto simp add: attention_bias_def Let_def bind_err_eq_Inr zeros_def split: if_splits)
  from ds have s1: "shape cm1 = [1, 1, shape q ! 1, shape k ! 1]"
    and e1: "\<And>i j. elem cm1 [0, 0, i, j] = (j \<le> i)"
    by (auto simp add: dynamic_slice_def Let_def make_causal_mask_def clamp_starts_def
        clamp_start_def split: if_splits)
  have "shape m = [batch_size, 1, shape q ! 1, shape k ! 1] \<and> \<not> elem m [b, 0, i, j]"
    using causal_window_bias [OF s1 _ b1 b2 cb idx] by (simp add: e1)
  then show ?thesis by (simp add: bias)
qed

lemma broadcast_index_heads_bias:
  "b < B \<Longrightarrow> i < Q \<Longrightarrow> j < K \<Longrightarrow> broadcast_index [B, 1, Q, K] [b, h, i, j] = [b, 0, i, j]"
  by (auto simp add: broadcast_index_def)

section \<open>Grouped-query attention\<close>

lemma unravel_ravel_valid:
  "list_all2 (<) idx sh \<Longrightarrow> unravel sh (ravel sh idx) = idx"
  using unravel_ravel_prefix [of idx sh "[]" "[]" "[]"] by simp

lemma repeat_kv_elem:
  assumes sh: "shape x = [bs, s, n_kv, dh]"
  shows "\<exists>y. repeat_kv x n_rep = Inr y \<and> shape y = [bs, s, n_kv * n_rep, dh] \<and>
           (\<forall>b<bs. \<forall>t<s. \<forall>h<n_kv * n_rep. \<forall>d<dh.
              elem y [b, t, h, d] = elem x [b, t, h mod n_kv, d])"
proof (cases "n_rep = 1")
  case True
  then show ?thesis using sh by (simp add: repeat_kv_def)
next
  case False
  let ?rep = "jnp_repeat (new_axis x 2) n_rep 2"
  define y where
    "y = tensor_of [bs, s, n_kv * n_rep, dh]
           (\<lambda>idx. elem ?rep (unravel (shape ?rep) (ravel [bs, s, n_kv * n_rep, dh] idx)))"
  have srep: "shape ?rep = [bs, s, n_rep, n_kv, dh]"
    by (simp add: jnp_repeat_def new_axis_def sh)
  have run: "repeat_kv x n_rep = Inr y"
    using False by (simp add: repeat_kv_def sh reshape_def srep y_def mult.commute)
  have "elem y [b, t, h, d] = elem x [b, t, h mod n_kv, d]"
    if "b < bs" "t < s" "h < n_kv * n_rep" "d < dh" for b t h d
  proof -
    have nz: "0 < n_kv" using that(3) by (cases n_kv) simp_all
    have q: "h div n_kv < n_rep" using that(3) nz by (simp add: less_mult_imp_div_less mult.commute)
    have r: "h mod n_kv < n_kv" using nz by simp
    have "h * dh = (h div n_kv * n_kv + h mod n_kv) * dh" by simp
    also have "\<dots> = h div n_kv * (n_kv * dh) + h mod n_kv * dh"
      by (simp only: add_mult_distrib mult.assoc)
    finally have hh: "h * dh = h div n_kv * (n_kv * dh) + h mod n_kv * dh" .
    have "ravel [bs, s, n_kv * n_rep, dh] [b, t, h, d]
          = ravel [bs, s, n_rep, n_kv, dh] [b, t, h div n_kv, h mod n_kv, d]"
      using hh by (simp add: mult.assoc mult.left_commute mult.commute)
    moreover have "unravel [bs, s, n_rep, n_kv, dh]
                     (ravel [bs, s, n_rep, n_kv, dh] [b, t, h div n_kv, h mod n_kv, d])
                   = [b, t, h div n_kv, h mod n_kv, d]"
      by (rule unravel_ravel_valid) (use that q r in simp)
    ultimately have "elem y [b, t, h, d] = elem ?rep [b, t, h div n_kv, h mod n_kv, d]"
      by (simp add: y_def srep del: ravel.simps unravel.simps)
    also have "\<dots> = elem x [b, t, h mod n_kv, d]"
      using q by (simp add: jnp_repeat_def new_axis_def)
    finally show ?thesis .
  qed
  then show ?thesis using run by (auto simp add: y_def)
qed

lemma broadcast_bias_heads:
  "broadcast_shapes [B, H, Q, K] [B, Suc 0, Q, K] = Some [B, H, Q, K]"
  by (simp add: broadcast_shapes_def)

lemma broadcast_batch: "broadcast_shapes [B] [B] = Some [B]"
  by (simp add: broadcast_shapes_def)

lemma broadcast_index_batch: "b < B \<Longrightarrow> broadcast_index [B] [b] = [b]"
  by (auto simp add: broadcast_index_def)

text \<open>
  Claim C7. For queries with \<open>G * n_rep\<close> heads and keys and values with \<open>G\<close> heads,
  \<^verbatim>\<open>repeat_kv\<close> returns tensors with \<open>G * n_rep\<close> heads whose head \<open>h\<close> is a copy of the
  original head \<open>h mod G\<close> (it computes nothing but copies, and has no parameters), and
  the attention that the code computes over the replicated tensors is, for every query
  head \<open>h\<close>, the attention of that head against the original key/value head \<open>h mod G\<close>.
\<close>

theorem grouped_query_equivalence:
  assumes shq: "shape q = [B, Q, G * n_rep, D]"
    and shk: "shape k = [B, K, G, D]"
    and shv: "shape v = [B, K, G, Dv]"
    and shb: "shape bias = [B, 1, Q, K]"
    and det: "deterministic \<or> dropout_rate \<le> 0"
  shows "\<exists>kr vr w out.
           repeat_kv k n_rep = Inr kr \<and> repeat_kv v n_rep = Inr vr \<and>
           dot_product_attention_weights q kr bias deterministic dropout_rate dropout = Inr w \<and>
           einsum_hqk_khd w vr = Inr out \<and>
           shape out = [B, Q, G * n_rep, Dv] \<and>
           (\<forall>b<B. \<forall>i<Q. \<forall>h<G * n_rep. \<forall>d<Dv.
              elem out [b, i, h, d] = head_attention q k v bias b i h (h mod G) d)"
proof -
  let ?H = "G * n_rep"
  from repeat_kv_elem [OF shk, of n_rep] obtain kr where
    kr: "repeat_kv k n_rep = Inr kr" "shape kr = [B, K, ?H, D]"
    and kr_elem: "\<And>b t h d. b < B \<Longrightarrow> t < K \<Longrightarrow> h < ?H \<Longrightarrow> d < D \<Longrightarrow>
                    elem kr [b, t, h, d] = elem k [b, t, h mod G, d]"
    by blast
  from repeat_kv_elem [OF shv, of n_rep] obtain vr where
    vr: "repeat_kv v n_rep = Inr vr" "shape vr = [B, K, ?H, Dv]"
    and vr_elem: "\<And>b t h d. b < B \<Longrightarrow> t < K \<Longrightarrow> h < ?H \<Longrightarrow> d < Dv \<Longrightarrow>
                    elem vr [b, t, h, d] = elem v [b, t, h mod G, d]"
    by blast
  define logits where
    "logits = tensor_of [B, ?H, Q, K]
       (\<lambda>idx. (\<Sum>c<D. elem q [idx ! 0, idx ! 2, idx ! 1, c] / sqrt (real D)
                        * elem kr [idx ! 0, idx ! 3, idx ! 1, c]))"
  define biased where
    "biased = tensor_of [B, ?H, Q, K]
       (\<lambda>idx. elem logits (broadcast_index [B, ?H, Q, K] idx)
              + elem bias (broadcast_index [B, 1, Q, K] idx))"
  define w where "w = softmax_last biased"
  have add: "tmap2 (+) logits bias = Inr biased"
    by (simp add: tmap2_def logits_def shb broadcast_bias_heads biased_def)
  have w: "dot_product_attention_weights q kr bias deterministic dropout_rate dropout = Inr w"
  proof -
    have "dot_product_attention_weights q kr bias deterministic dropout_rate dropout
          = bind_err (tmap2 (+) logits bias)
              (\<lambda>attn_weights.
                 Inr (if \<not> deterministic \<and> dropout_rate > 0
                      then dropout (softmax_last attn_weights)
                      else softmax_last attn_weights))"
      unfolding dot_product_attention_weights_def shq kr(2) logits_def
      by (simp only: prod.case list.case simp_thms if_True)
    then show ?thesis using det by (auto simp add: add w_def)
  qed
  have shw: "shape w = [B, ?H, Q, K]"
    by (simp add: w_def softmax_last_def biased_def)
  define out where
    "out = tensor_of [B, Q, ?H, Dv]
       (\<lambda>idx. \<Sum>j<K. elem w (broadcast_index [B] [idx ! 0] @ [idx ! 2, idx ! 1, j])
                     * elem vr (broadcast_index [B] [idx ! 0] @ [j, idx ! 2, idx ! 3]))"
  have out: "einsum_hqk_khd w vr = Inr out"
    by (simp add: einsum_hqk_khd_def shw vr(2) broadcast_batch out_def)
  have "elem out [b, i, h, d] = head_attention q k v bias b i h (h mod G) d"
    if idx: "b < B" "i < Q" "h < ?H" "d < Dv" for b i h d
  proof -
    have score: "elem biased [b, h, i, j] = head_score q k bias b i h (h mod G) j"
      if j: "j < K" for j
    proof -
      have "(\<Sum>c<D. elem q [b, i, h, c] / sqrt (real D) * elem kr [b, j, h, c])
            = (\<Sum>c<D. elem q [b, i, h, c] / sqrt (real D) * elem k [b, j, h mod G, c])"
        by (rule sum.cong) (use kr_elem [OF idx(1) j idx(3)] in simp_all)
      then show ?thesis
        using idx j
        by (simp add: biased_def logits_def head_score_def shq broadcast_index_valid4
            broadcast_index_heads_bias del: One_nat_def)
    qed
    have wt: "elem w [b, h, i, j]
              = exp (head_score q k bias b i h (h mod G) j)
                  / (\<Sum>j'<K. exp (head_score q k bias b i h (h mod G) j'))"
      if j: "j < K" for j
    proof -
      have "(\<Sum>j'<K. exp (elem biased [b, h, i, j']))
            = (\<Sum>j'<K. exp (head_score q k bias b i h (h mod G) j'))"
        by (rule sum.cong) (use score in simp_all)
      then show ?thesis
        using score [OF j] by (simp add: w_def softmax_last_def biased_def)
    qed
    have "elem out [b, i, h, d] = (\<Sum>j<K. elem w [b, h, i, j] * elem vr [b, j, h, d])"
      using idx by (simp add: out_def broadcast_index_batch)
    also have "\<dots> = (\<Sum>j<K. exp (head_score q k bias b i h (h mod G) j)
                  / (\<Sum>j'<K. exp (head_score q k bias b i h (h mod G) j'))
                  * elem v [b, j, h mod G, d])"
      by (rule sum.cong) (use wt vr_elem [OF idx(1) _ idx(3,4)] in simp_all)
    finally show ?thesis by (simp add: head_attention_def shk)
  qed
  then show ?thesis using kr(1) vr(1) w out by (auto simp add: out_def)
qed


theorem grouped_query_equivalence_witness:
  "\<exists>kr vr w out.
     repeat_kv (tensor_of [1, 1, 1, 1] (\<lambda>idx. 2)) 2 = Inr kr \<and>
     repeat_kv (tensor_of [1, 1, 1, 1] (\<lambda>idx. 7)) 2 = Inr vr \<and>
     dot_product_attention_weights (tensor_of [1, 1, 2, 1] (\<lambda>idx. 3)) kr (zeros [1, 1, 1, 1])
       True 0 id = Inr w \<and>
     einsum_hqk_khd w vr = Inr out \<and> shape out = [1, 1, 2, 1] \<and> elem out [0, 0, 1, 0] = 7"
proof -
  let ?q = "tensor_of [1, 1, 2, 1] (\<lambda>idx. 3 :: real)"
  let ?k = "tensor_of [1, 1, 1, 1] (\<lambda>idx. 2 :: real)"
  let ?v = "tensor_of [1, 1, 1, 1] (\<lambda>idx. 7 :: real)"
  let ?bias = "zeros [1, 1, 1, 1]"
  have "head_attention ?q ?k ?v ?bias 0 0 1 (1 mod 1) 0 = 7"
    by (simp add: head_attention_def)
  moreover
  from grouped_query_equivalence [of ?q 1 1 1 2 1 ?k 1 ?v 1 ?bias True 0 id]
  obtain kr vr w out where
    "repeat_kv ?k 2 = Inr kr" "repeat_kv ?v 2 = Inr vr"
    "dot_product_attention_weights ?q kr ?bias True 0 id = Inr w"
    "einsum_hqk_khd w vr = Inr out" "shape out = [1, 1, 2, 1]"
    "\<forall>b<1. \<forall>i<1. \<forall>h<2. \<forall>d<1. elem out [b, i, h, d] = head_attention ?q ?k ?v ?bias b i h (h mod 1) d"
    by (auto simp add: zeros_def simp del: One_nat_def)
  ultimately show ?thesis by (auto simp del: One_nat_def)
qed

section \<open>Appending to the cache\<close>

lemma int32_id: "- (2 ^ 31) \<le> x \<Longrightarrow> x < 2 ^ 31 \<Longrightarrow> int32 x = x"
  by (simp add: int32_def)

lemma clamp_start_zero [simp]: "clamp_start 0 d d = 0"
  by (simp add: clamp_start_def)

lemma clamp_start_fits:
  "0 \<le> c \<Longrightarrow> c + int n \<le> int ml \<Longrightarrow> clamp_start c ml n = nat c"
  by (simp add: clamp_start_def)

lemma clamp_start_full:
  "int ml < c + int n \<Longrightarrow> n \<le> ml \<Longrightarrow> clamp_start c ml n = ml - n"
  by (auto simp add: clamp_start_def)

lemma clamp_start_le: "n \<le> ml \<Longrightarrow> clamp_start c ml n + n \<le> ml"
  by (auto simp add: clamp_start_def)

lemma update_window:
  assumes "shape operand = [B, ml, H, D]" "shape update = [B, n, H, D]" "n \<le> ml"
  shows "\<exists>r. dynamic_update_slice operand update [0, c, 0, 0] = Inr r \<and>
           shape r = [B, ml, H, D] \<and>
           (\<forall>b<B. \<forall>t<ml. \<forall>h<H. \<forall>d<D.
              elem r [b, t, h, d] =
                (if clamp_start c ml n \<le> t \<and> t < clamp_start c ml n + n
                 then elem update [b, t - clamp_start c ml n, h, d]
                 else elem operand [b, t, h, d]))"
  using assms
  by (auto simp add: dynamic_update_slice_def clamp_starts_def in_window_def Let_def)


lemma broadcast_pad_mask:
  "broadcast_shapes [B, Suc 0, n, ml] [B, Suc 0, Suc 0, ml] = Some [B, Suc 0, n, ml]"
  by (simp add: broadcast_shapes_def)

lemma concatenate_to_cache_append:
  assumes shc: "shape (key c) = [B, ml, H, D]" "shape (val c) = [B, ml, H, D]"
    and shn: "shape k = [B, n, H, D]" "shape v = [B, n, H, D]"
    and shq: "2 \<le> length (shape q)" "shape q ! 1 = n"
    and shm: "shape attention_mask = [B, 1, 1, ml]"
    and fit: "n \<le> ml"
  shows "\<exists>k' v' m.
           concatenate_to_cache (Some c) q k v attention_mask
             = Inr ((q, k', v', m), \<lparr>key = k', val = v', index = int32 (index c + int n)\<rparr>) \<and>
           shape k' = [B, ml, H, D] \<and> shape v' = [B, ml, H, D] \<and>
           (\<forall>b<B. \<forall>t<ml. \<forall>h<H. \<forall>d<D.
              elem k' [b, t, h, d] =
                (if clamp_start (index c) ml n \<le> t \<and> t < clamp_start (index c) ml n + n
                 then elem k [b, t - clamp_start (index c) ml n, h, d]
                 else elem (key c) [b, t, h, d])) \<and>
           (\<forall>b<B. \<forall>t<ml. \<forall>h<H. \<forall>d<D.
              elem v' [b, t, h, d] =
                (if clamp_start (index c) ml n \<le> t \<and> t < clamp_start (index c) ml n + n
                 then elem v [b, t - clamp_start (index c) ml n, h, d]
                 else elem (val c) [b, t, h, d]))"
proof -
  from update_window [OF shc(1) shn(1) fit, of "index c"] obtain k' where
    k': "dynamic_update_slice (key c) k [0, index c, 0, 0] = Inr k'" "shape k' = [B, ml, H, D]"
      "\<forall>b<B. \<forall>t<ml. \<forall>h<H. \<forall>d<D.
         elem k' [b, t, h, d] =
           (if clamp_start (index c) ml n \<le> t \<and> t < clamp_start (index c) ml n + n
            then elem k [b, t - clamp_start (index c) ml n, h, d]
            else elem (key c) [b, t, h, d])"
    by blast
  from update_window [OF shc(2) shn(2) fit, of "index c"] obtain v' where
    v': "dynamic_update_slice (val c) v [0, index c, 0, 0] = Inr v'" "shape v' = [B, ml, H, D]"
      "\<forall>b<B. \<forall>t<ml. \<forall>h<H. \<forall>d<D.
         elem v' [b, t, h, d] =
           (if clamp_start (index c) ml n \<le> t \<and> t < clamp_start (index c) ml n + n
            then elem v [b, t - clamp_start (index c) ml n, h, d]
            else elem (val c) [b, t, h, d])"
    by blast
  have "\<exists>m. concatenate_to_cache (Some c) q k v attention_mask
             = Inr ((q, k', v', m), \<lparr>key = k', val = v', index = int32 (index c + int n)\<rparr>)"
    using shq
    by (simp add: concatenate_to_cache_def shc k'(1) v'(1) Let_def broadcast_to_def
        combine_masks_def tmap2_def shm broadcast_pad_mask)
  then show ?thesis using k'(2,3) v'(2,3) by blast
qed


text \<open>
  Claim C2, as the code has it. For a cache with buffers \<open>[B, max_len, H, D]\<close> and cursor
  \<open>c \<ge> 0\<close>, and new keys and values \<open>[B, new_tokens, H, D]\<close> with
  \<open>new_tokens \<le> max_len\<close>, \<^verbatim>\<open>concatenate_to_cache_\<close> always returns: it advances the
  cursor by exactly \<open>new_tokens\<close> and writes the new keys and values at offset \<open>c\<close> when
  \<open>c + new_tokens \<le> max_len\<close>, and otherwise at the clamped offset
  \<open>max_len - new_tokens\<close>, over the newest entries; every other position keeps its
  content. No capacity error exists.
\<close>

theorem cache_append_semantics:
  assumes shc: "shape (key c) = [B, max_len, H, D]" "shape (val c) = [B, max_len, H, D]"
    and shn: "shape k = [B, new_tokens, H, D]" "shape v = [B, new_tokens, H, D]"
    and shq: "2 \<le> length (shape q)" "shape q ! 1 = new_tokens"
    and shm: "shape attention_mask = [B, 1, 1, max_len]"
    and fit: "new_tokens \<le> max_len"
    and cur: "0 \<le> index c" "index c + int new_tokens < 2 ^ 31"
  shows "\<exists>k' v' m c'.
           concatenate_to_cache (Some c) q k v attention_mask = Inr ((q, k', v', m), c') \<and>
           key c' = k' \<and> val c' = v' \<and>
           index c' = index c + int new_tokens \<and>
           (\<forall>b<B. \<forall>t<max_len. \<forall>h<H. \<forall>d<D.
              let offset = (if index c + int new_tokens \<le> int max_len then nat (index c)
                            else max_len - new_tokens)
              in elem k' [b, t, h, d] =
                   (if offset \<le> t \<and> t < offset + new_tokens
                    then elem k [b, t - offset, h, d] else elem (key c) [b, t, h, d]) \<and>
                 elem v' [b, t, h, d] =
                   (if offset \<le> t \<and> t < offset + new_tokens
                    then elem v [b, t - offset, h, d] else elem (val c) [b, t, h, d]))"
proof -
  have off: "clamp_start (index c) max_len new_tokens
             = (if index c + int new_tokens \<le> int max_len then nat (index c)
                else max_len - new_tokens)"
    using cur(1) fit by (simp add: clamp_start_fits clamp_start_full)
  have wrap: "int32 (index c + int new_tokens) = index c + int new_tokens"
    using cur by (intro int32_id) simp_all
  from concatenate_to_cache_append [OF shc shn shq shm fit]
  show ?thesis
    unfolding off wrap Let_def by (elim exE conjE, intro exI conjI) (assumption | simp)+
qed


theorem cache_append_semantics_witness:
  "\<exists>k' v' m c'.
     concatenate_to_cache
       (Some \<lparr>key = tensor_of [1, 2, 1, 1] (\<lambda>idx. 10), val = tensor_of [1, 2, 1, 1] (\<lambda>idx. 20),
              index = 0\<rparr>)
       (zeros [1, 1, 1, 1]) (tensor_of [1, 1, 1, 1] (\<lambda>idx. 99)) (tensor_of [1, 1, 1, 1] (\<lambda>idx. 77))
       (tensor_of [1, 1, 1, 2] (\<lambda>idx. 1))
     = Inr ((zeros [1, 1, 1, 1], k', v', m), c') \<and>
     index c' = 1 \<and> elem (key c') [0, 0, 0, 0] = 99 \<and> elem (key c') [0, 1, 0, 0] = 10 \<and>
     elem (val c') [0, 0, 0, 0] = 77 \<and> elem (val c') [0, 1, 0, 0] = 20"
proof -
  let ?c = "\<lparr>key = tensor_of [1, 2, 1, 1] (\<lambda>idx. 10 :: real),
             val = tensor_of [1, 2, 1, 1] (\<lambda>idx. 20 :: real), index = 0\<rparr>"
  let ?q = "zeros [1, 1, 1, 1]"
  let ?k = "tensor_of [1, 1, 1, 1] (\<lambda>idx. 99 :: real)"
  let ?v = "tensor_of [1, 1, 1, 1] (\<lambda>idx. 77 :: real)"
  let ?m = "tensor_of [1, 1, 1, 2] (\<lambda>idx. 1 :: int)"
  from cache_append_semantics [of ?c 1 2 1 1 ?k 1 ?v ?q ?m]
  obtain k' v' m c' where
    run: "concatenate_to_cache (Some ?c) ?q ?k ?v ?m = Inr ((?q, k', v', m), c')"
      "key c' = k'" "val c' = v'" "index c' = 1"
    and el: "\<forall>b<1. \<forall>t<2. \<forall>h<1. \<forall>d<1.
               elem k' [b, t, h, d] = (if 0 \<le> t \<and> t < 1 then 99 else 10) \<and>
               elem v' [b, t, h, d] = (if 0 \<le> t \<and> t < 1 then 77 else 20)"
    by (auto simp add: zeros_def Let_def simp del: One_nat_def)
  from el have "elem k' [0, 0, 0, 0] = 99" "elem k' [0, 1, 0, 0] = 10"
    "elem v' [0, 0, 0, 0] = 77" "elem v' [0, 1, 0, 0] = 20"
    by (auto simp del: One_nat_def)
  with run show ?thesis by (auto simp del: One_nat_def)
qed

text \<open>
  The claim as stated fails on a full cache (\<open>max_len = 2\<close>, cursor 2, one new token):
  the call returns, the cursor becomes 3 and the last slot of both buffers is
  overwritten.
\<close>

theorem cache_append_no_capacity_error:
  "\<exists>r c'.
     concatenate_to_cache
       (Some \<lparr>key = tensor_of [1, 2, 1, 1] (\<lambda>idx. 10), val = tensor_of [1, 2, 1, 1] (\<lambda>idx. 20),
              index = 2\<rparr>)
       (zeros [1, 1, 1, 1]) (tensor_of [1, 1, 1, 1] (\<lambda>idx. 99)) (tensor_of [1, 1, 1, 1] (\<lambda>idx. 77))
       (tensor_of [1, 1, 1, 2] (\<lambda>idx. 1))
     = Inr (r, c') \<and> index c' = 3 \<and> elem (key c') [0, 1, 0, 0] = 99 \<and>
     elem (val c') [0, 1, 0, 0] = 77"
proof -
  let ?c = "\<lparr>key = tensor_of [1, 2, 1, 1] (\<lambda>idx. 10 :: real),
             val = tensor_of [1, 2, 1, 1] (\<lambda>idx. 20 :: real), index = 2\<rparr>"
  let ?q = "zeros [1, 1, 1, 1]"
  let ?k = "tensor_of [1, 1, 1, 1] (\<lambda>idx. 99 :: real)"
  let ?v = "tensor_of [1, 1, 1, 1] (\<lambda>idx. 77 :: real)"
  let ?m = "tensor_of [1, 1, 1, 2] (\<lambda>idx. 1 :: int)"
  from concatenate_to_cache_append [of ?c 1 2 1 1 ?k 1 ?v ?q ?m]
  obtain k' v' m where
    run: "concatenate_to_cache (Some ?c) ?q ?k ?v ?m
            = Inr ((?q, k', v', m), \<lparr>key = k', val = v', index = int32 3\<rparr>)"
    and el: "\<forall>b<1. \<forall>t<2. \<forall>h<1. \<forall>d<1.
               elem k' [b, t, h, d] = (if 1 \<le> t \<and> t < 2 then 99 else 10)"
            "\<forall>b<1. \<forall>t<2. \<forall>h<1. \<forall>d<1.
               elem v' [b, t, h, d] = (if 1 \<le> t \<and> t < 2 then 77 else 20)"
    by (auto simp add: zeros_def clamp_start_def simp del: One_nat_def)
  from el have "elem k' [0, 1, 0, 0] = 99" "elem v' [0, 1, 0, 0] = 77"
    by (auto simp del: One_nat_def)
  moreover have "int32 3 = 3" by (simp add: int32_def)
  ultimately show ?thesis using run by (auto simp del: One_nat_def)
qed

section \<open>The cache across a session\<close>

lemma dense_shape:
  assumes "shape kernel' = [fin, fout]" "shape x = [B, S, fin]"
  shows "\<exists>y. dense kernel' x = Inr y \<and> shape y = [B, S, fout]"
  using assms by (simp add: dense_def)

lemma split_heads:
  assumes "shape x = [B, S, n * dh]" "0 < B" "0 < S" "0 < dh"
  shows "\<exists>y. reshape_infer x [B, S] [dh] = Inr y \<and> shape y = [B, S, n, dh]"
proof -
  have "B * (S * (n * dh)) = (B * (S * dh)) * n" by simp
  then have dv: "(B * (S * (n * dh))) div (B * (S * dh)) = n"
    and md: "(B * (S * (n * dh))) mod (B * (S * dh)) = 0"
    using assms(2-4) by simp_all
  show ?thesis
    unfolding reshape_infer_def reshape_def Let_def
    using assms dv md by (simp add: mult.commute)
qed

lemma apply_rotary_emb_shapes:
  assumes "shape xq = [B, S, H, 2 * m]" "shape xk = [B, S, Hk, 2 * m]" "shape fc = [B, S, m]"
    and pos: "0 < B" "0 < S" "0 < H" "0 < Hk"
  shows "\<exists>q k. apply_rotary_emb xq xk fc = Inr (q, k) \<and>
           shape q = [B, S, H, 2 * m] \<and> shape k = [B, S, Hk, 2 * m]"
proof -
  define fc4 where "fc4 = tensor_of [B, S, 1, m]
      (\<lambda>idx. elem fc (unravel (shape fc) (ravel [B, S, 1, m] idx)))"
  have r4: "reshape fc (take 2 (shape fc) @ [1] @ drop 2 (shape fc)) = Inr fc4"
    by (simp add: reshape_def assms(3) fc4_def)
  have s4: "shape fc4 = [B, S, 1, m]" by (simp add: fc4_def)
  from split_last_axis [OF assms(1) pos(1,2,3)] obtain rq where
    rq: "reshape_infer xq [B, S, H] [2] = Inr rq" "shape rq = [B, S, H, m, 2]" by simp
  from split_last_axis [OF assms(2) pos(1,2,4)] obtain rk where
    rk: "reshape_infer xk [B, S, Hk] [2] = Inr rk" "shape rk = [B, S, Hk, m, 2]" by simp
  from rotate_elem [OF rq(2) s4 pos(1,2,3)] obtain q where
    q: "rotate rq fc4 = Inr q" "shape q = [B, S, H, 2 * m]" by blast
  from rotate_elem [OF rk(2) s4 pos(1,2,4)] obtain k where
    k: "rotate rk fc4 = Inr k" "shape k = [B, S, Hk, 2 * m]" by blast
  have "apply_rotary_emb xq xk fc = Inr (q, k)"
    using rq(1) rk(1) r4 q(1) k(1) by (simp add: apply_rotary_emb_def assms(1,2))
  then show ?thesis using q(2) k(2) by blast
qed

lemma jnp_take_shape:
  assumes "jnp_take table ids = Inr fc" "shape table = [e, m]" "shape ids = [B, S]"
  shows "shape fc = [B, S, m]"
  using assms by (auto simp add: jnp_take_def split: if_splits)

lemma attention_qkv_returns:
  assumes shh: "shape hidden_state = [B, S, hs]"
    and shp: "shape (q_proj params) = [hs, nh * dh]" "shape (k_proj params) = [hs, nkv * dh]"
      "shape (v_proj params) = [hs, nkv * dh]"
    and pos: "0 < B" "0 < S" "0 < dh" "0 < nh" "0 < nkv" "even dh"
    and sht: "shape table = [e, dh div 2]" "shape position_ids = [B, S]"
    and fc: "jnp_take table position_ids = Inr fc"
  shows "\<exists>q k v. attention_qkv params dh groups hidden_state table position_ids = Inr (q, k, v) \<and>
           shape q = [B, S, nh, dh] \<and> shape k = [B, S, nkv * groups, dh] \<and>
           shape v = [B, S, nkv * groups, dh]"
proof -
  from pos(6) obtain m where dh: "dh = 2 * m" by (elim evenE)
  from dense_shape [OF shp(1) shh] obtain q0 where
    q0: "dense (q_proj params) hidden_state = Inr q0" "shape q0 = [B, S, nh * dh]" by blast
  from dense_shape [OF shp(2) shh] obtain k0 where
    k0: "dense (k_proj params) hidden_state = Inr k0" "shape k0 = [B, S, nkv * dh]" by blast
  from dense_shape [OF shp(3) shh] obtain v0 where
    v0: "dense (v_proj params) hidden_state = Inr v0" "shape v0 = [B, S, nkv * dh]" by blast
  from split_heads [OF q0(2) pos(1,2,3)] obtain q1 where
    q1: "reshape_infer q0 [B, S] [dh] = Inr q1" "shape q1 = [B, S, nh, dh]" by blast
  from split_heads [OF k0(2) pos(1,2,3)] obtain k1 where
    k1: "reshape_infer k0 [B, S] [dh] = Inr k1" "shape k1 = [B, S, nkv, dh]" by blast
  from split_heads [OF v0(2) pos(1,2,3)] obtain v1 where
    v1: "reshape_infer v0 [B, S] [dh] = Inr v1" "shape v1 = [B, S, nkv, dh]" by blast
  have sfc: "shape fc = [B, S, m]"
    using jnp_take_shape [OF fc sht] dh by simp
  from apply_rotary_emb_shapes [OF q1(2) [unfolded dh] k1(2) [unfolded dh] sfc pos(1,2,4,5)]
  obtain q2 k2 where rot: "apply_rotary_emb q1 k1 fc = Inr (q2, k2)"
    and s2: "shape q2 = [B, S, nh, dh]" "shape k2 = [B, S, nkv, dh]"
    using dh by auto
  from repeat_kv_elem [OF s2(2), of groups] obtain k where
    k: "repeat_kv k2 groups = Inr k" "shape k = [B, S, nkv * groups, dh]" by blast
  from repeat_kv_elem [OF v1(2), of groups] obtain v where
    v: "repeat_kv v1 groups = Inr v" "shape v = [B, S, nkv * groups, dh]" by blast
  have "attention_qkv params dh groups hidden_state table position_ids = Inr (q2, k, v)"
    by (simp add: attention_qkv_def Let_def shh q0(1) k0(1) v0(1) q1(1) k1(1) v1(1) fc rot
        k(1) v(1))
  then show ?thesis using s2(1) k(2) v(2) by blast
qed

lemma broadcast_mask_rows:
  "broadcast_to (tensor_of [B, Suc 0, Suc 0, S] f) [B, Suc 0, S, S]
     = Inr (tensor_of [B, Suc 0, S, S] (\<lambda>idx. f (broadcast_index [B, Suc 0, Suc 0, S] idx)))"
  by (simp add: broadcast_to_def)

lemma attention_bias_returns:
  assumes shq: "shape q = [B, S, H, D]" and shk: "shape k = [B, S, Hk, Dk]"
    and shm: "shape attention_mask = [B, S]" and le: "S \<le> M"
    and c: "cache = None \<or> cache = Some \<lparr>key = zeros (shape k), val = zeros (shape k), index = 0\<rparr>"
  shows "\<exists>bias. attention_bias finfo_min cache B q k attention_mask (make_causal_mask M) = Inr bias
           \<and> shape bias = [B, 1, S, S]"
proof -
  obtain am1 where ex: "expand_dims_m3_m2 attention_mask = Inr am1" "shape am1 = [B, 1, 1, S]"
    by (simp add: expand_dims_m3_m2_def shm)
  from c show ?thesis
  proof
    assume "cache = None"
    then show ?thesis
      using le
      by (simp add: attention_bias_def shq shk Let_def slice_2_3_def make_causal_mask_def
          broadcast_to_def ex min_def combine_masks_def tmap2_def broadcast_shapes_same)
  next
    assume "cache = Some \<lparr>key = zeros (shape k), val = zeros (shape k), index = 0\<rparr>"
    then show ?thesis
      using le
      by (simp add: attention_bias_def shq shk Let_def dynamic_slice_def make_causal_mask_def
          zeros_def broadcast_to_def ex combine_masks_def tmap2_def broadcast_shapes_same)
  qed
qed


lemma attention_weights_returns:
  assumes "shape q = [B, S, H, D]" "shape k = [B, K, H, D]" "shape bias = [B, 1, S, K]"
    "deterministic \<or> dropout_rate \<le> 0"
  shows "\<exists>w. dot_product_attention_weights q k bias deterministic dropout_rate dropout = Inr w
           \<and> shape w = [B, H, S, K]"
  using assms
  by (auto simp add: dot_product_attention_weights_def tmap2_def broadcast_bias_heads
      softmax_last_def)

lemma einsum_returns:
  assumes "shape w = [B, H, S, K]" "shape v = [B, K, H, D]"
  shows "\<exists>r. einsum_hqk_khd w v = Inr r \<and> shape r = [B, S, H, D]"
  using assms by (simp add: einsum_hqk_khd_def broadcast_batch)

lemma attention_call_returns:
  assumes cfg: "num_attention_heads config = nkv * groups" "num_key_value_heads config = nkv"
      "hidden_size config = nkv * groups * dh"
    and pos: "0 < B" "0 < S" "0 < dh" "0 < groups" "0 < nkv" "even dh"
    and shh: "shape hidden_state = [B, S, nkv * groups * dh]"
    and shp: "shape (q_proj params) = [nkv * groups * dh, nkv * groups * dh]"
      "shape (k_proj params) = [nkv * groups * dh, nkv * dh]"
      "shape (v_proj params) = [nkv * groups * dh, nkv * dh]"
      "shape (o_proj params) = [nkv * groups * dh, nkv * groups * dh]"
    and sht: "shape table = [e, dh div 2]" "shape position_ids = [B, S]"
    and fc: "jnp_take table position_ids = Inr fc"
    and shm: "shape attention_mask = [B, S]" and le: "S \<le> M"
    and det: "deterministic \<or> attn_pdrop config \<le> 0"
  shows "\<exists>out attn_output.
           FlaxMistralAttention_call config finfo_min dropout params None hidden_state table
             attention_mask (make_causal_mask M) position_ids deterministic init_cache
           = Inr ((out, attn_output),
                  if init_cache
                  then Some \<lparr>key = zeros [B, S, nkv * groups, dh],
                             val = zeros [B, S, nkv * groups, dh], index = 0\<rparr>
                  else None)
           \<and> shape out = [B, S, nkv * groups * dh]"
proof -
  let ?nh = "nkv * groups"
  have nh: "0 < ?nh" using pos(4,5) by simp
  have stp: "attention_setup config = Inr (dh, groups)"
    using pos nh by (simp add: attention_setup_def cfg)
  from attention_qkv_returns [OF shh shp(1,2,3) pos(1,2,3) nh pos(5,6) sht fc, of groups]
  obtain q k v where
    qkv: "attention_qkv params dh groups hidden_state table position_ids = Inr (q, k, v)"
    and sq: "shape q = [B, S, ?nh, dh]" and sk: "shape k = [B, S, ?nh, dh]"
    and sv: "shape v = [B, S, ?nh, dh]"
    by blast
  let ?cache' = "if init_cache
                 then Some \<lparr>key = zeros (shape k), val = zeros (shape k), index = 0\<rparr> else None"
  have "?cache' = None \<or> ?cache' = Some \<lparr>key = zeros (shape k), val = zeros (shape k), index = 0\<rparr>"
    by simp
  from attention_bias_returns [OF sq sk shm le this]
  obtain bias where
    bias: "attention_bias finfo_min ?cache' B q k attention_mask (make_causal_mask M) = Inr bias"
    and sb: "shape bias = [B, 1, S, S]"
    by blast
  have cb: "cache_and_bias finfo_min None init_cache B q k v attention_mask (make_causal_mask M)
            = Inr (q, k, v, bias, ?cache')"
    using bias by (cases init_cache) (simp_all add: cache_and_bias_def concatenate_to_cache_def)
  from attention_weights_returns [OF sq sk sb det]
  obtain w where
    w: "dot_product_attention_weights q k bias deterministic (attn_pdrop config) dropout = Inr w"
    and sw: "shape w = [B, ?nh, S, S]"
    by blast
  from einsum_returns [OF sw sv] obtain ao where
    ao: "einsum_hqk_khd w v = Inr ao" and sao: "shape ao = [B, S, ?nh, dh]"
    by blast
  define ao2 where
    "ao2 = tensor_of [B, S, ?nh * dh] (\<lambda>idx. elem ao (unravel (shape ao) (ravel [B, S, ?nh * dh] idx)))"
  have r: "reshape ao (take 2 (shape ao) @ [hidden_size config]) = Inr ao2"
    by (simp add: reshape_def sao cfg ao2_def)
  have "shape ao2 = [B, S, ?nh * dh]" by (simp add: ao2_def)
  from dense_shape [OF shp(4) this] obtain out where
    out: "dense (o_proj params) ao2 = Inr out" "shape out = [B, S, ?nh * dh]"
    by blast
  have "FlaxMistralAttention_call config finfo_min dropout params None hidden_state table
          attention_mask (make_causal_mask M) position_ids deterministic init_cache
        = Inr ((out, ao2), ?cache')"
    by (simp add: FlaxMistralAttention_call_def stp shh qkv cb w ao r out(1))
  then show ?thesis using out(2) sk by auto
qed

lemma example_table_built: "precompute_freq_cis None 4 6 10000 1 = Inr example_table"
  by (simp add: precompute_freq_cis_def example_table_def)

lemma example_gather: "\<exists>fc. jnp_take example_table example_position_ids = Inr fc"
  by (simp add: jnp_take_def example_table_def example_position_ids_def index_in_bounds_def
      wrap_index_def upt_rec)

lemma init_establishes_invariant:
  assumes cfg: "num_attention_heads config = nkv * groups" "num_key_value_heads config = nkv"
      "hidden_size config = nkv * groups * dh"
    and pos: "0 < B" "0 < S" "0 < dh" "0 < groups" "0 < nkv" "even dh"
    and shh: "shape hidden_state = [B, S, nkv * groups * dh]"
    and shp: "shape (q_proj params) = [nkv * groups * dh, nkv * groups * dh]"
      "shape (k_proj params) = [nkv * groups * dh, nkv * dh]"
      "shape (v_proj params) = [nkv * groups * dh, nkv * dh]"
      "shape (o_proj params) = [nkv * groups * dh, nkv * groups * dh]"
    and sht: "shape table = [e, dh div 2]" "shape position_ids = [B, S]"
    and fc: "jnp_take table position_ids = Inr fc"
    and shm: "shape attention_mask = [B, S]" and le: "S \<le> M"
    and det: "deterministic \<or> attn_pdrop config \<le> 0"
  shows "\<exists>outs c.
           FlaxMistralAttention_call config finfo_min dropout params None hidden_state table
             attention_mask (make_causal_mask M) position_ids deterministic True
           = Inr (outs, Some c)
           \<and> cache_shape_invariant config B S c \<and> index c = 0
           \<and> shape (key c) = [B, S, num_attention_heads config, dh]"
proof -
  have "0 < nkv * groups" using pos by simp
  then have "cache_shape_invariant config B S
          \<lparr>key = zeros [B, S, nkv * groups, dh], val = zeros [B, S, nkv * groups, dh], index = 0\<rparr>"
    using pos by (simp add: cache_shape_invariant_def cfg zeros_def)
  with attention_call_returns [OF cfg pos shh shp sht fc shm le det, of finfo_min dropout True]
  show ?thesis by (auto simp add: cfg zeros_def)
qed

lemma append_preserves_invariant:
  assumes inv: "cache_shape_invariant config B max_len c"
    and hd: "heads = num_key_value_heads config
               * (num_attention_heads config div num_key_value_heads config)"
      "dh = hidden_size config div num_attention_heads config"
    and shn: "shape k = [B, n, heads, dh]" "shape v = [B, n, heads, dh]"
    and shq: "2 \<le> length (shape q)" "shape q ! 1 = n"
    and shm: "shape attention_mask = [B, 1, 1, max_len]"
    and fit: "n \<le> max_len" and cur: "index c + int n < 2 ^ 31"
  shows "\<exists>r c'. concatenate_to_cache (Some c) q k v attention_mask = Inr (r, c')
           \<and> cache_shape_invariant config B max_len c' \<and> index c' = index c + int n"
proof -
  from inv have shc: "shape (key c) = [B, max_len, heads, dh]" "shape (val c) = [B, max_len, heads, dh]"
    and c0: "0 \<le> index c"
    by (simp_all add: cache_shape_invariant_def hd)
  have wrap: "int32 (index c + int n) = index c + int n"
    using c0 cur by (intro int32_id) simp_all
  from concatenate_to_cache_append [OF shc shn shq shm fit]
  obtain k' v' m where
    "concatenate_to_cache (Some c) q k v attention_mask
       = Inr ((q, k', v', m), \<lparr>key = k', val = v', index = int32 (index c + int n)\<rparr>)"
    "shape k' = [B, max_len, heads, dh]" "shape v' = [B, max_len, heads, dh]"
    by blast
  then show ?thesis
    using c0 by (auto simp add: wrap cache_shape_invariant_def hd)
qed


text \<open>
  Claim C4, as the code has it. For a well-formed configuration (the head counts divide,
  the head dimension is even) and a first call with \<^verbatim>\<open>init_cache\<close> on a
  \<open>[B, S]\<close> input, the call returns and creates a cache whose key and value buffers have
  shape \<open>[B, S, num_key_value_heads * groups, head_dim]\<close>, that is
  \<^verbatim>\<open>num_attention_heads\<close> heads, with cursor 0; every append of \<open>n \<le> S\<close> tokens of that
  shape keeps the buffer shapes and adds \<open>n\<close> to the cursor, which stays non-negative
  (below \<open>2^31\<close>) and is not bounded by the cache length.
\<close>

theorem cache_state_invariant:
  assumes cfg: "num_attention_heads config = nkv * groups" "num_key_value_heads config = nkv"
      "hidden_size config = nkv * groups * dh"
    and pos: "0 < B" "0 < S" "0 < dh" "0 < groups" "0 < nkv" "even dh"
    and shh: "shape hidden_state = [B, S, nkv * groups * dh]"
    and shp: "shape (q_proj params) = [nkv * groups * dh, nkv * groups * dh]"
      "shape (k_proj params) = [nkv * groups * dh, nkv * dh]"
      "shape (v_proj params) = [nkv * groups * dh, nkv * dh]"
      "shape (o_proj params) = [nkv * groups * dh, nkv * groups * dh]"
    and sht: "shape table = [e, dh div 2]" "shape position_ids = [B, S]"
    and fc: "jnp_take table position_ids = Inr fc"
    and shm: "shape attention_mask = [B, S]" and le: "S \<le> M"
    and det: "deterministic \<or> attn_pdrop config \<le> 0"
  shows "(\<exists>outs c.
            FlaxMistralAttention_call config finfo_min dropout params None hidden_state table
              attention_mask (make_causal_mask M) position_ids deterministic True
            = Inr (outs, Some c)
            \<and> cache_shape_invariant config B S c \<and> index c = 0)
         \<and> (\<forall>c q k v mask n.
               cache_shape_invariant config B S c \<and>
               shape k = [B, n, nkv * groups, dh] \<and> shape v = [B, n, nkv * groups, dh] \<and>
               2 \<le> length (shape q) \<and> shape q ! 1 = n \<and> shape mask = [B, 1, 1, S] \<and>
               n \<le> S \<and> index c + int n < 2 ^ 31
               \<longrightarrow> (\<exists>r c'. concatenate_to_cache (Some c) q k v mask = Inr (r, c')
                      \<and> cache_shape_invariant config B S c' \<and> index c' = index c + int n))"
proof (intro conjI allI impI)
  from init_establishes_invariant [OF cfg pos shh shp sht fc shm le det, of finfo_min dropout]
  show "\<exists>outs c.
            FlaxMistralAttention_call config finfo_min dropout params None hidden_state table
              attention_mask (make_causal_mask M) position_ids deterministic True
            = Inr (outs, Some c)
            \<and> cache_shape_invariant config B S c \<and> index c = 0"
    by blast
next
  fix c and q k v :: "real tensor" and mask :: "int tensor" and n
  assume a: "cache_shape_invariant config B S c \<and>
               shape k = [B, n, nkv * groups, dh] \<and> shape v = [B, n, nkv * groups, dh] \<and>
               2 \<le> length (shape q) \<and> shape q ! 1 = n \<and> shape mask = [B, 1, 1, S] \<and>
               n \<le> S \<and> index c + int n < 2 ^ 31"
  have hd: "nkv * groups = num_key_value_heads config
               * (num_attention_heads config div num_key_value_heads config)"
    "dh = hidden_size config div num_attention_heads config"
    using pos by (simp_all add: cfg)
  from a show "\<exists>r c'. concatenate_to_cache (Some c) q k v mask = Inr (r, c')
                 \<and> cache_shape_invariant config B S c' \<and> index c' = index c + int n"
    by (intro append_preserves_invariant [OF _ hd]) simp_all
qed

theorem cache_state_invariant_witness:
  "(\<exists>outs c.
      FlaxMistralAttention_call example_config (- 1000) id example_params None
        (tensor_of [1, 3, 8] (\<lambda>idx. 1)) example_table (tensor_of [1, 3] (\<lambda>idx. 1))
        (make_causal_mask 3) example_position_ids True True
      = Inr (outs, Some c)
      \<and> cache_shape_invariant example_config 1 3 c \<and> index c = 0)
   \<and> (\<exists>r c'.
         concatenate_to_cache
           (Some \<lparr>key = zeros [1, 3, 2, 4], val = zeros [1, 3, 2, 4], index = 0\<rparr>)
           (zeros [1, 1, 2, 4]) (zeros [1, 1, 2, 4]) (zeros [1, 1, 2, 4])
           (tensor_of [1, 1, 1, 3] (\<lambda>idx. 1))
         = Inr (r, c')
         \<and> cache_shape_invariant example_config 1 3 c' \<and> index c' = 1)"
proof -
  from example_gather obtain fc where fc: "jnp_take example_table example_position_ids = Inr fc"
    by blast
  let ?c = "\<lparr>key = zeros [1, 3, 2, 4], val = zeros [1, 3, 2, 4], index = 0\<rparr>"
  have inv: "cache_shape_invariant example_config 1 3 ?c"
    by (simp add: cache_shape_invariant_def example_config_def zeros_def)
  from cache_state_invariant [of example_config 1 2 4 1 3 "tensor_of [1, 3, 8] (\<lambda>idx. 1)"
      example_params example_table 6 example_position_ids fc "tensor_of [1, 3] (\<lambda>idx. 1)" 3 True
      "- 1000" id, OF _ _ _ _ _ _ _ _ _ _ _ _ _ _ _ _ fc]
  have both: "(\<exists>outs c.
      FlaxMistralAttention_call example_config (- 1000) id example_params None
        (tensor_of [1, 3, 8] (\<lambda>idx. 1)) example_table (tensor_of [1, 3] (\<lambda>idx. 1))
        (make_causal_mask 3) example_position_ids True True
      = Inr (outs, Some c)
      \<and> cache_shape_invariant example_config 1 3 c \<and> index c = 0)
     \<and> (\<forall>c q k v mask n.
               cache_shape_invariant example_config 1 3 c \<and>
               shape k = [1, n, 1 * 2, 4] \<and> shape v = [1, n, 1 * 2, 4] \<and>
               2 \<le> length (shape q) \<and> shape q ! 1 = n \<and> shape mask = [1, 1, 1, 3] \<and>
               n \<le> 3 \<and> index c + int n < 2 ^ 31
               \<longrightarrow> (\<exists>r c'. concatenate_to_cache (Some c) q k v mask = Inr (r, c')
                      \<and> cache_shape_invariant example_config 1 3 c' \<and> index c' = index c + int n))"
    by (simp add: example_config_def example_params_def example_table_def
        example_position_ids_def del: One_nat_def)
  from both have "\<exists>r c'. concatenate_to_cache (Some ?c) (zeros [1, 1, 2, 4]) (zeros [1, 1, 2, 4])
        (zeros [1, 1, 2, 4]) (tensor_of [1, 1, 1, 3] (\<lambda>idx. 1)) = Inr (r, c')
      \<and> cache_shape_invariant example_config 1 3 c' \<and> index c' = index ?c + int 1"
    using inv by (elim conjE allE [where x = ?c] allE [where x = "zeros [1, 1, 2, 4]"]
        allE [where x = "tensor_of [1, 1, 1, 3] (\<lambda>idx. 1)"] allE [where x = 1] impE)
      (simp_all add: zeros_def del: One_nat_def)
  with both show ?thesis by (simp del: One_nat_def)
qed


text \<open>
  The claim as stated fails on the example configuration: the cache created for one
  key/value head has two heads, and an append to a full cache of length 3 returns with
  cursor 4.
\<close>

theorem cache_invariant_counterexample:
  "(\<exists>outs c.
      FlaxMistralAttention_call example_config (- 1000) id example_params None
        (tensor_of [1, 3, 8] (\<lambda>idx. 1)) example_table (tensor_of [1, 3] (\<lambda>idx. 1))
        (make_causal_mask 3) example_position_ids True True
      = Inr (outs, Some c)
      \<and> shape (key c) = [1, 3, 2, 4] \<and> num_key_value_heads example_config = 1)
   \<and> (\<exists>r c'.
         concatenate_to_cache
           (Some \<lparr>key = zeros [1, 3, 2, 4], val = zeros [1, 3, 2, 4], index = 3\<rparr>)
           (zeros [1, 1, 2, 4]) (zeros [1, 1, 2, 4]) (zeros [1, 1, 2, 4])
           (tensor_of [1, 1, 1, 3] (\<lambda>idx. 1))
         = Inr (r, c')
         \<and> shape (key c') = [1, 3, 2, 4] \<and> index c' = 4)"
proof (intro conjI)
  from example_gather obtain fc where fc: "jnp_take example_table example_position_ids = Inr fc"
    by blast
  from init_establishes_invariant [of example_config 1 2 4 1 3 "tensor_of [1, 3, 8] (\<lambda>idx. 1)"
      example_params example_table 6 example_position_ids fc "tensor_of [1, 3] (\<lambda>idx. 1)" 3 True
      "- 1000" id, OF _ _ _ _ _ _ _ _ _ _ _ _ _ _ _ _ fc]
  show "\<exists>outs c.
      FlaxMistralAttention_call example_config (- 1000) id example_params None
        (tensor_of [1, 3, 8] (\<lambda>idx. 1)) example_table (tensor_of [1, 3] (\<lambda>idx. 1))
        (make_causal_mask 3) example_position_ids True True
      = Inr (outs, Some c)
      \<and> shape (key c) = [1, 3, 2, 4] \<and> num_key_value_heads example_config = 1"
    by (simp add: example_config_def example_params_def example_table_def
        example_position_ids_def del: One_nat_def) blast
next
  let ?c = "\<lparr>key = zeros [1, 3, 2, 4], val = zeros [1, 3, 2, 4], index = 3\<rparr>"
  have w: "int32 4 = 4" by (simp add: int32_def)
  from concatenate_to_cache_append [of ?c 1 3 2 4 "zeros [1, 1, 2, 4]" 1 "zeros [1, 1, 2, 4]"
      "zeros [1, 1, 2, 4]" "tensor_of [1, 1, 1, 3] (\<lambda>idx. 1)"]
  show "\<exists>r c'.
         concatenate_to_cache (Some ?c)
           (zeros [1, 1, 2, 4]) (zeros [1, 1, 2, 4]) (zeros [1, 1, 2, 4])
           (tensor_of [1, 1, 1, 3] (\<lambda>idx. 1))
         = Inr (r, c')
         \<and> shape (key c') = [1, 3, 2, 4] \<and> index c' = 4"
    by (auto simp add: zeros_def w simp del: One_nat_def)
qed

section \<open>Diagnostics, weight tying, the shared table\<close>

lemma decoder_layer_attentions_never_returns:
  "FlaxMistralDecoderLayer_call L hidden_state fc am cm pos det ic True \<noteq> Inr r"
  by (auto simp add: FlaxMistralDecoderLayer_call_def self_attn_def attention_outputs_def
      py_get_def bind_err_def Let_def split: sum.splits prod.splits)

lemma decoder_layer_attentions_type_error:
  assumes "input_layernorm L hidden_state = Inr normed"
    "self_attn_core L normed fc am cm pos det ic = Inr (out, attn_output)"
    "arr_add L out hidden_state = Inr h1" "post_attention_layernorm L h1 = Inr normed2"
    "mlp L normed2 = Inr m" "arr_add L m h1 = Inr h2"
  shows "FlaxMistralDecoderLayer_call L hidden_state fc am cm pos det ic True = Inl TypeError"
  using assms
  by (simp add: FlaxMistralDecoderLayer_call_def self_attn_def attention_outputs_def py_get_def)

lemma decoder_layer_without_attentions:
  assumes "input_layernorm L hidden_state = Inr normed"
    "self_attn_core L normed fc am cm pos det ic = Inr (out, attn_output)"
    "arr_add L out hidden_state = Inr h1" "post_attention_layernorm L h1 = Inr normed2"
    "mlp L normed2 = Inr m" "arr_add L m h1 = Inr h2"
  shows "FlaxMistralDecoderLayer_call L hidden_state fc am cm pos det ic False = Inr [PyArr h2]"
  using assms
  by (simp add: FlaxMistralDecoderLayer_call_def self_attn_def attention_outputs_def py_get_def)

lemma collection_attentions_never_returns:
  "FlaxMistralDecoratorCollection_call (layer # layers) hidden_state fc am cm pos det ic True ohs
     \<noteq> Inr r"
  by (auto simp add: FlaxMistralDecoratorCollection_call_def py_get_def bind_err_def Let_def
      split: sum.splits prod.splits if_splits)

text \<open>
  The stack's own slip: as soon as a first layer returns a pair of hidden state and
  attention entry, the loop body adds the entry to the flag \<^verbatim>\<open>output_attentions\<close> (a
  \<^verbatim>\<open>bool\<close>) instead of to \<^verbatim>\<open>all_attentions\<close>, which is a \<^verbatim>\<open>TypeError\<close>.
\<close>

lemma collection_flag_plus_tuple:
  assumes "layer hidden_state fc am cm pos det ic True = Inr (PyArr h # a # rest)"
  shows "FlaxMistralDecoratorCollection_call (layer # layers) hidden_state fc am cm pos det ic
           True ohs = Inl TypeError"
  using assms
  by (simp add: FlaxMistralDecoratorCollection_call_def py_get_def)

text \<open>
  Claim C5. The claim says that a call that requests attention weights gets the ordered
  per-layer sequence back. On the code, a stack of decoder layers called with
  \<^verbatim>\<open>output_attentions\<close> raises \<^verbatim>\<open>TypeError\<close> as soon as the parts of its first layer
  (norms, attention, MLP, residual sums) have returned: the layer adds an array to its
  result tuple (\<^verbatim>\<open>outputs += attention_output[1]\<close>).
\<close>

theorem diagnostics_attentions_type_error:
  assumes "input_layernorm L hidden_state = Inr normed"
    "self_attn_core L normed fc am cm pos det ic = Inr (out, attn_output)"
    "arr_add L out hidden_state = Inr h1" "post_attention_layernorm L h1 = Inr normed2"
    "mlp L normed2 = Inr m" "arr_add L m h1 = Inr h2"
  shows "FlaxMistralDecoratorCollection_call (FlaxMistralDecoderLayer_call L # layers)
           hidden_state fc am cm pos det ic True ohs = Inl TypeError"
  using decoder_layer_attentions_type_error [OF assms]
  by (simp add: FlaxMistralDecoratorCollection_call_def)

theorem diagnostics_attentions_type_error_witness:
  "FlaxMistralDecoratorCollection_call
     [FlaxMistralDecoderLayer_call
        \<lparr>self_attn_core = (\<lambda>h fc am cm pos det ic. Inr (2 * h, 3 * h)),
         mlp = (\<lambda>h. Inr (h + 1)), input_layernorm = (\<lambda>h. Inr h),
         post_attention_layernorm = (\<lambda>h. Inr h), arr_add = (\<lambda>x y. Inr (x + y))\<rparr>]
     (5 :: int) () () () () True False True False = Inl TypeError"
proof -
  let ?L = "\<lparr>self_attn_core = (\<lambda>(h :: int) (fc :: unit) (am :: unit) (cm :: unit) (pos :: unit)
                                   (det :: bool) (ic :: bool). Inr (2 * h, 3 * h)),
             mlp = (\<lambda>h. Inr (h + 1)), input_layernorm = (\<lambda>h. Inr h),
             post_attention_layernorm = (\<lambda>h. Inr h), arr_add = (\<lambda>x y. Inr (x + y))\<rparr>"
  have 1: "input_layernorm ?L 5 = Inr 5" by simp
  have 2: "self_attn_core ?L 5 () () () () True False = Inr (10, 15)" by simp
  have 3: "arr_add ?L 10 5 = Inr 15" by simp
  have 4: "post_attention_layernorm ?L 15 = Inr 15" by simp
  have 5: "mlp ?L 15 = Inr 16" by simp
  have 6: "arr_add ?L 16 15 = Inr 31" by simp
  show ?thesis by (rule diagnostics_attentions_type_error [OF 1 2 3 4 5 6])
qed

lemma collection_loop_keeps_none:
  "collection_loop layers fc am cm pos det ic False h PyNone oa = Inr (h', ahs) \<Longrightarrow> ahs = PyNone"
  by (induction layers arbitrary: h oa) (auto simp add: bind_err_eq_Inr split: if_splits)

lemma module_hidden_states_type_error:
  assumes "FlaxMistralDecoratorCollection_call (m_layers M) e (m_freq_cis M) am4
             (m_causal_mask M) pos det ic oa False = Inr (h, ahs, aatt)"
    and "m_norm M h = Inr hs"
    and "shape am = [b, s]" "reshape am [b, 1, 1, s] = Inr am4"
  shows "FlaxMistralModule_call M input_ids am pos det (Some e) ic oa True rd = Inl TypeError"
proof -
  from assms(1) have "ahs = PyNone"
    by (auto simp add: FlaxMistralDecoratorCollection_call_def bind_err_eq_Inr
        dest: collection_loop_keeps_none)
  then show ?thesis
    using assms by (simp add: FlaxMistralModule_call_def)
qed


lemma transformer_is_no_attribute:
  "py_getattr causal_lm_attributes ''transformer'' = Inl AttributeError"
  by (simp add: py_getattr_def causal_lm_attributes_def)

lemma tied_head_never_returns:
  "tie_word_embeddings config \<Longrightarrow>
   FlaxMistralForCausalLMModule_call config L input_ids am pos det e ic oa ohs rd \<noteq> Inr r"
  by (auto simp add: FlaxMistralForCausalLMModule_call_def transformer_is_no_attribute
      bind_err_def split: sum.splits)

lemma untied_head_uses_lm_head:
  assumes "\<not> tie_word_embeddings config" "length (shape input_ids) = 2"
    "FlaxMistralModule_call (lm_model L) input_ids am pos det e ic oa ohs rd = Inr outputs"
    "output_first outputs = Inr hidden"
  shows "FlaxMistralForCausalLMModule_call config L input_ids am pos det e ic oa ohs rd
         = bind_err (lm_head_apply L (lm_head_kernel L) hidden)
             (\<lambda>lm_logits. Inr (lm_result lm_logits outputs))"
  using assms by (simp add: FlaxMistralForCausalLMModule_call_def)

text \<open>
  Claim C9. With \<^verbatim>\<open>tie_word_embeddings\<close> enabled, once the model has returned its
  hidden states the head raises \<^verbatim>\<open>AttributeError\<close>: it reads \<^verbatim>\<open>self.transformer\<close>,
  which the module does not have (its model is \<^verbatim>\<open>self.model\<close>). No logits are
  produced from the embedding matrix.
\<close>

theorem tied_head_attribute_error:
  assumes "tie_word_embeddings config" "length (shape input_ids) = 2"
    "FlaxMistralModule_call (lm_model L) input_ids am pos det e ic oa ohs rd = Inr outputs"
    "output_first outputs = Inr hidden"
  shows "FlaxMistralForCausalLMModule_call config L input_ids am pos det e ic oa ohs rd
         = Inl AttributeError"
  using assms
  by (simp add: FlaxMistralForCausalLMModule_call_def transformer_is_no_attribute)

theorem tied_head_attribute_error_witness:
  "FlaxMistralForCausalLMModule_call (example_config\<lparr>tie_word_embeddings := True\<rparr>)
     \<lparr>lm_model = \<lparr>m_embed_tokens = (\<lambda>ids. Inr (7 :: int)), m_layers = [],
                   m_norm = (\<lambda>h. Inr h), m_freq_cis = example_table,
                   m_causal_mask = make_causal_mask 3\<rparr>,
      lm_head_kernel = (2 :: int), lm_head_apply = (\<lambda>k h. Inr (k * h)),
      shared_kernel_of = (\<lambda>a. Inr 3)\<rparr>
     (tensor_of [1, 3] (\<lambda>idx. 1)) (tensor_of [1, 3] (\<lambda>idx. 1)) example_position_ids
     True None False False False True
   = Inl AttributeError"
  by (rule tied_head_attribute_error
        [where outputs = "FlaxBaseModelOutput 7 PyNone PyNone" and hidden = 7])
    (simp_all add: example_config_def FlaxMistralModule_call_def
       FlaxMistralDecoratorCollection_call_def reshape_def)

lemma collection_loop_table:
  "collection_loop (map (\<lambda>layer h table'. layer h table) layers) table2 am cm pos det ic ohs h ahs oa
   = collection_loop layers table am cm pos det ic ohs h ahs oa"
proof (induction layers arbitrary: h ahs oa)
  case Nil
  show ?case by simp
next
  case (Cons layer layers)
  have eq: "collection_loop (map (\<lambda>layer h table'. layer h table) layers) table2 am cm pos det ic
              ohs h ahs
            = collection_loop layers table am cm pos det ic ohs h ahs" for h ahs
    by (rule ext) (rule Cons.IH)
  show ?case by (simp add: eq)
qed

lemma collection_call_table:
  "FlaxMistralDecoratorCollection_call (map (\<lambda>layer h table'. layer h table) layers) h table2
     am cm pos det ic oa ohs
   = FlaxMistralDecoratorCollection_call layers h table am cm pos det ic oa ohs"
  by (simp add: FlaxMistralDecoratorCollection_call_def collection_loop_table)

text \<open>
  What the code does with the frequency table. The module that \<^verbatim>\<open>setup\<close> returns holds
  one table, built with method \<^verbatim>\<open>None\<close> and the default \<^verbatim>\<open>theta = 10000\<close> for the head
  dimension \<^verbatim>\<open>hidden_size // num_attention_heads\<close> and the length
  \<^verbatim>\<open>2 * max_position_embeddings\<close>, and every layer call of a forward call receives that
  table: replacing each layer by one that ignores the table it is passed and uses the
  module's table changes nothing.
\<close>

lemma frequency_table_shared:
  assumes "FlaxMistralModule_setup config embedding layer_fns final_norm = Inr M"
  shows "precompute_freq_cis None (hidden_size config div num_attention_heads config)
           (max_position_embeddings config * 2) 10000 1 = Inr (m_freq_cis M)
         \<and> m_layers M = layer_fns
         \<and> FlaxMistralModule_call M input_ids am pos det e ic oa ohs rd
             = FlaxMistralModule_call
                 (M\<lparr>m_layers := map (\<lambda>layer h table'. layer h (m_freq_cis M)) (m_layers M)\<rparr>)
                 input_ids am pos det e ic oa ohs rd"
proof -
  from assms obtain table where
    t: "module_freq_cis config = Inr table" and M: "m_freq_cis M = table" "m_layers M = layer_fns"
    by (auto simp add: FlaxMistralModule_setup_def bind_err_eq_Inr)
  from t have "precompute_freq_cis None (hidden_size config div num_attention_heads config)
                 (max_position_embeddings config * 2) 10000 1 = Inr (m_freq_cis M)"
    by (simp add: module_freq_cis_def M split: if_splits)
  moreover have "FlaxMistralModule_call M input_ids am pos det e ic oa ohs rd
             = FlaxMistralModule_call
                 (M\<lparr>m_layers := map (\<lambda>layer h table'. layer h (m_freq_cis M)) (m_layers M)\<rparr>)
                 input_ids am pos det e ic oa ohs rd"
  proof -
    define M' where
      "M' = M\<lparr>m_layers := map (\<lambda>layer h table'. layer h (m_freq_cis M)) (m_layers M)\<rparr>"
    have sels: "m_embed_tokens M' = m_embed_tokens M" "m_norm M' = m_norm M"
      "m_freq_cis M' = m_freq_cis M" "m_causal_mask M' = m_causal_mask M"
      "m_layers M' = map (\<lambda>layer h table'. layer h (m_freq_cis M)) (m_layers M)"
      by (simp_all add: M'_def)
    show ?thesis
      unfolding M'_def [symmetric] FlaxMistralModule_call_def sels collection_call_table ..
  qed
  ultimately show ?thesis using M(2) by blast
qed

lemma frequency_table_shared_example:
  "precompute_freq_cis None (hidden_size example_config div num_attention_heads example_config)
     (max_position_embeddings example_config * 2) 10000 1 = Inr example_table
   \<and> FlaxMistralModule_call
         \<lparr>m_embed_tokens = (\<lambda>ids. Inr (7 :: int)),
          m_layers = [\<lambda>h table am cm pos det ic oa. Inr [PyArr (h + 1)]],
          m_norm = (\<lambda>h. Inr h), m_freq_cis = example_table,
          m_causal_mask = make_causal_mask 3\<rparr>
         (tensor_of [1, 3] (\<lambda>idx. 1)) (tensor_of [1, 3] (\<lambda>idx. 1)) example_position_ids
         True None False False False True
       = Inr (FlaxBaseModelOutput 8 PyNone PyNone)"
proof -
  let ?layers = "[\<lambda>(h :: int) (table :: complex tensor) (am :: int tensor) (cm :: bool tensor)
                    (pos :: int tensor) (det :: bool) (ic :: bool) (oa :: bool).
                    Inr [PyArr (h + 1)] :: py_error + int pyval list]"
  let ?M = "\<lparr>m_embed_tokens = (\<lambda>ids. Inr (7 :: int)), m_layers = ?layers,
             m_norm = (\<lambda>h. Inr h), m_freq_cis = example_table,
             m_causal_mask = make_causal_mask 3\<rparr>"
  have s: "FlaxMistralModule_setup example_config (\<lambda>ids. Inr (7 :: int)) ?layers (\<lambda>h. Inr h)
           = Inr ?M"
    using example_table_built
    by (simp add: FlaxMistralModule_setup_def module_freq_cis_def example_config_def)
  have run: "FlaxMistralModule_call
         (?M\<lparr>m_layers := map (\<lambda>layer h table'. layer h (m_freq_cis ?M)) (m_layers ?M)\<rparr>)
         (tensor_of [1, 3] (\<lambda>idx. 1)) (tensor_of [1, 3] (\<lambda>idx. 1)) example_position_ids
         True None False False False True
       = Inr (FlaxBaseModelOutput 8 PyNone PyNone)"
    by (simp add: FlaxMistralModule_call_def FlaxMistralDecoratorCollection_call_def
        reshape_def py_get_def)
  from frequency_table_shared [OF s, of "tensor_of [1, 3] (\<lambda>idx. 1)"
      "tensor_of [1, 3] (\<lambda>idx. 1)" example_position_ids True None False False False True]
  show ?thesis
    unfolding run by simp
qed


lemma cis_small_angles_differ: "cis (1 / 100) \<noteq> cis (1 / 2)"
proof
  assume "cis (1 / 100) = cis (1 / 2)"
  then have "Re (cis (1 / 100)) = Re (cis (1 / 2))" by simp
  then have eq: "cos (1 / 100 :: real) = cos (1 / 2)" by simp
  have "(1 / 2 :: real) \<le> pi" using pi_ge_two by simp
  then have "cos (1 / 2 :: real) < cos (1 / 100)"
    by (intro cos_monotone_0_pi) simp_all
  with eq show False by simp
qed

lemma powr_half_10000: "(10000 :: real) powr (1 / 2) = 100"
proof -
  have "(10000 :: real) powr (1 / 2) = sqrt 10000" by (simp add: powr_half_sqrt)
  also have "\<dots> = sqrt (100\<^sup>2)" by simp
  also have "\<dots> = 100" by (simp only: real_sqrt_abs abs_numeral)
  finally show ?thesis .
qed

lemma powr_half_4: "(4 :: real) powr (1 / 2) = 2"
proof -
  have "(4 :: real) powr (1 / 2) = sqrt 4" by (simp add: powr_half_sqrt)
  also have "\<dots> = sqrt (2\<^sup>2)" by simp
  also have "\<dots> = 2" by (simp only: real_sqrt_abs abs_numeral)
  finally show ?thesis .
qed

text \<open>
  Claim C8. The claim has the table built from the configuration's \<^verbatim>\<open>rope_theta\<close>.
  \<^verbatim>\<open>MistralConfig\<close> stores \<^verbatim>\<open>rope_theta\<close>, and \<^verbatim>\<open>setup\<close> never passes it to
  \<^verbatim>\<open>precompute_freq_cis\<close>: for a configuration with \<^verbatim>\<open>rope_theta = 4\<close> the table of
  the module is not the table that \<^verbatim>\<open>precompute_freq_cis\<close> builds from that
  \<^verbatim>\<open>rope_theta\<close>.
\<close>

theorem frequency_table_ignores_rope_theta:
  "module_freq_cis (example_config\<lparr>rope_theta := 4\<rparr>)
   \<noteq> precompute_freq_cis None
       (hidden_size (example_config\<lparr>rope_theta := 4\<rparr>)
          div num_attention_heads (example_config\<lparr>rope_theta := 4\<rparr>))
       (max_position_embeddings (example_config\<lparr>rope_theta := 4\<rparr>) * 2)
       (rope_theta (example_config\<lparr>rope_theta := 4\<rparr>)) 1"
proof
  assume "module_freq_cis (example_config\<lparr>rope_theta := 4\<rparr>)
   = precompute_freq_cis None
       (hidden_size (example_config\<lparr>rope_theta := 4\<rparr>)
          div num_attention_heads (example_config\<lparr>rope_theta := 4\<rparr>))
       (max_position_embeddings (example_config\<lparr>rope_theta := 4\<rparr>) * 2)
       (rope_theta (example_config\<lparr>rope_theta := 4\<rparr>)) 1"
  then have "(\<lambda>idx :: nat list. cis (real (idx ! 0) * (1 / (float_power 10000 (real (2 * (idx ! 1)) / 4)))))
           = (\<lambda>idx. cis (real (idx ! 0) * (1 / (float_power 4 (real (2 * (idx ! 1)) / 4)))))"
    by (simp add: module_freq_cis_def example_config_def precompute_freq_cis_def tensor_of_def)
  then have "cis (real ([1, 1] ! 0) * (1 / (float_power 10000 (real (2 * ([1, 1 :: nat] ! 1)) / 4))))
           = cis (real ([1, 1] ! 0) * (1 / (float_power 4 (real (2 * ([1, 1 :: nat] ! 1)) / 4))))"
    by (rule fun_cong)
  then have "cis (1 / 100) = cis (1 / 2)"
    by (simp add: float_power_def powr_half_10000 powr_half_4)
  with cis_small_angles_differ show False by simp
qed

text \<open>
  Claim C1. The claim compares a cache-free pass with one-token calls that use an
  initialized cache. On the code, no attention call that finds the cache collection
  present returns: whatever the inputs, it raises before it computes attention weights.
\<close>

theorem incremental_call_raises:
  "FlaxMistralAttention_call config finfo_min dropout params (Some c) hidden_state table
     attention_mask causal position_ids deterministic init_cache \<noteq> Inr r"
proof
  assume "FlaxMistralAttention_call config finfo_min dropout params (Some c) hidden_state table
     attention_mask causal position_ids deterministic init_cache = Inr r"
  then obtain q k v r' where
    "cache_and_bias finfo_min (Some c) init_cache (shape hidden_state ! 0) q k v attention_mask
       causal = Inr r'"
    by (auto simp add: FlaxMistralAttention_call_def bind_err_eq_Inr split: if_splits)
  with cached_call_raises show False by blast
qed


lemma attention_bias_wide_mask:
  assumes "3 \<le> length (shape attention_mask)"
  shows "attention_bias finfo_min cache batch_size q k attention_mask (make_causal_mask M)
         \<noteq> Inr bias"
proof (cases cache)
  case (Some c)
  then show ?thesis using attention_bias_cached_rank [OF assms] by simp
next
  case None
  show ?thesis
  proof
    assume "attention_bias finfo_min cache batch_size q k attention_mask (make_causal_mask M)
              = Inr bias"
    with None obtain cm1 cm2 am1 am2 where
      sl: "slice_2_3 (make_causal_mask M) (shape q ! 1) (shape k ! 1) = Inr cm1"
      and b1: "broadcast_to cm1 (batch_size # tl (shape cm1)) = Inr cm2"
      and ex: "expand_dims_m3_m2 attention_mask = Inr am1"
      and b2: "broadcast_to am1 (shape cm2) = Inr am2"
      by (auto simp add: attention_bias_def Let_def bind_err_eq_Inr split: if_splits)
    from sl have "length (shape cm1) = 4"
      by (auto simp add: slice_2_3_def make_causal_mask_def)
    with broadcast_to_shape [OF b1] have r4: "length (shape cm2) = 4" by simp
    from ex assms have "5 \<le> length (shape am1)"
      by (auto simp add: expand_dims_m3_m2_def Let_def split: if_splits)
    with broadcast_to_shape [OF b2] r4 show False by simp
  qed
qed

lemma attention_call_wide_mask:
  assumes "3 \<le> length (shape attention_mask)"
  shows "FlaxMistralAttention_call config finfo_min dropout params cache hidden_state table
           attention_mask (make_causal_mask M) position_ids deterministic init_cache \<noteq> Inr r"
proof
  assume "FlaxMistralAttention_call config finfo_min dropout params cache hidden_state table
           attention_mask (make_causal_mask M) position_ids deterministic init_cache = Inr r"
  then obtain q k v r' where
    cb: "cache_and_bias finfo_min cache init_cache (shape hidden_state ! 0) q k v attention_mask
           (make_causal_mask M) = Inr r'"
    by (auto simp add: FlaxMistralAttention_call_def bind_err_eq_Inr split: if_splits)
  show False
  proof (cases cache)
    case (Some c)
    with cb cached_call_raises show False by blast
  next
    case None
    with cb obtain cache' bias where
      "attention_bias finfo_min cache' (shape hidden_state ! 0) q k attention_mask
         (make_causal_mask M) = Inr bias"
      by (auto simp add: cache_and_bias_def concatenate_to_cache_def bind_err_eq_Inr
          split: if_splits)
    with attention_bias_wide_mask [OF assms] show False by blast
  qed
qed

lemma first_layer_raises:
  assumes "\<And>h oa r. layer h fc am cm pos det ic oa \<noteq> Inr r"
  shows "FlaxMistralDecoratorCollection_call (layer # layers) hidden_state fc am cm pos det ic
           output_attentions ohs \<noteq> Inr r"
proof
  assume "FlaxMistralDecoratorCollection_call (layer # layers) hidden_state fc am cm pos det ic
            output_attentions ohs = Inr r"
  then obtain out where "layer hidden_state fc am cm pos det ic output_attentions = Inr out"
    by (auto simp add: FlaxMistralDecoratorCollection_call_def bind_err_eq_Inr Let_def
        split: if_splits)
  with assms show False by blast
qed

lemma forward_with_2d_mask_raises:
  assumes am: "shape attention_mask = [b, s]"
    and M: "m_causal_mask M = make_causal_mask n"
      "m_layers M = FlaxMistralDecoderLayer_call L # rest"
    and L: "self_attn_core L = attention_core config finfo_min dropout params cache"
  shows "FlaxMistralModule_call M input_ids attention_mask position_ids deterministic e
           init_cache output_attentions output_hidden_states return_dict \<noteq> Inr r"
proof
  assume run: "FlaxMistralModule_call M input_ids attention_mask position_ids deterministic e
           init_cache output_attentions output_hidden_states return_dict = Inr r"
  obtain am4 where
    am4: "reshape attention_mask [b, Suc 0, Suc 0, s] = Inr am4" "shape am4 = [b, 1, 1, s]"
    by (simp add: reshape_def am)
  have layer: "FlaxMistralDecoderLayer_call L h (m_freq_cis M) am4 (make_causal_mask n)
                 position_ids deterministic init_cache oa \<noteq> Inr r'" for h oa r'
  proof
    assume "FlaxMistralDecoderLayer_call L h (m_freq_cis M) am4 (make_causal_mask n)
              position_ids deterministic init_cache oa = Inr r'"
    then obtain normed outs where
      "attention_core config finfo_min dropout params cache normed (m_freq_cis M) am4
         (make_causal_mask n) position_ids deterministic init_cache = Inr outs"
      by (auto simp add: FlaxMistralDecoderLayer_call_def self_attn_def L bind_err_eq_Inr
          Let_def)
    then obtain r2 where
      "FlaxMistralAttention_call config finfo_min dropout params cache normed (m_freq_cis M) am4
         (make_causal_mask n) position_ids deterministic init_cache = Inr r2"
      by (auto simp add: attention_core_def bind_err_eq_Inr)
    moreover have "3 \<le> length (shape am4)" by (simp add: am4(2))
    ultimately show False using attention_call_wide_mask by blast
  qed
  from run obtain emb r3 where
    "FlaxMistralDecoratorCollection_call (FlaxMistralDecoderLayer_call L # rest) emb
       (m_freq_cis M) am4 (make_causal_mask n) position_ids deterministic init_cache
       output_attentions False = Inr r3"
    by (auto simp add: FlaxMistralModule_call_def am am4(1) M bind_err_eq_Inr)
  with first_layer_raises [of "FlaxMistralDecoderLayer_call L", OF layer] show False by blast
qed


section \<open>Causal masking of the attention weights\<close>

lemma attention_weights_elem:
  assumes shq: "shape q = [B, S, H, D]" and shk: "shape k = [B, K, H, D]"
    and shb: "shape bias = [B, 1, S, K]"
    and det: "deterministic \<or> dropout_rate \<le> 0"
    and run: "dot_product_attention_weights q k bias deterministic dropout_rate dropout = Inr w"
    and idx: "b < B" "h < H" "i < S" "j < K"
  shows "elem w [b, h, i, j]
         = exp (attention_score q k b h i j + elem bias [b, 0, i, j])
             / (\<Sum>j'<K. exp (attention_score q k b h i j' + elem bias [b, 0, i, j']))"
proof -
  define logits where
    "logits = tensor_of [B, H, S, K]
       (\<lambda>idx. (\<Sum>c<D. elem q [idx ! 0, idx ! 2, idx ! 1, c] / sqrt (real D)
                        * elem k [idx ! 0, idx ! 3, idx ! 1, c]))"
  define biased where
    "biased = tensor_of [B, H, S, K]
       (\<lambda>idx. elem logits (broadcast_index [B, H, S, K] idx)
              + elem bias (broadcast_index [B, 1, S, K] idx))"
  have add: "tmap2 (+) logits bias = Inr biased"
    by (simp add: tmap2_def logits_def shb broadcast_bias_heads biased_def)
  have "dot_product_attention_weights q k bias deterministic dropout_rate dropout
        = bind_err (tmap2 (+) logits bias)
            (\<lambda>attn_weights.
               Inr (if \<not> deterministic \<and> dropout_rate > 0
                    then dropout (softmax_last attn_weights)
                    else softmax_last attn_weights))"
    unfolding dot_product_attention_weights_def shq shk logits_def
    by (simp only: prod.case list.case simp_thms if_True)
  with run det have w: "w = softmax_last biased" by (auto simp add: add)
  have score: "elem biased [b, h, i, j'] = attention_score q k b h i j' + elem bias [b, 0, i, j']"
    if j: "j' < K" for j'
    using idx j
    by (simp add: biased_def logits_def attention_score_def shq broadcast_index_valid4
        broadcast_index_heads_bias del: One_nat_def)
  have "(\<Sum>j'<K. exp (elem biased [b, h, i, j']))
        = (\<Sum>j'<K. exp (attention_score q k b h i j' + elem bias [b, 0, i, j']))"
    by (rule sum.cong) (use score in simp_all)
  then show ?thesis
    using score [OF idx(4)] by (simp add: w softmax_last_def biased_def)
qed

lemma softmax_ratio_bound:
  fixes f :: "nat \<Rightarrow> real"
  assumes "j0 < K"
  shows "exp (f j) / (\<Sum>j'<K. exp (f j')) \<le> exp (f j - f j0)"
proof -
  have le: "exp (f j0) \<le> (\<Sum>j'<K. exp (f j'))"
    using assms member_le_sum [of j0 "{..<K}" "\<lambda>j'. exp (f j')"] by simp
  have pos: "0 < exp (f j0)" by simp
  have "exp (f j) / (\<Sum>j'<K. exp (f j')) \<le> exp (f j) / exp (f j0)"
    by (rule frac_le) (use le pos in simp_all)
  then show ?thesis by (simp add: exp_diff)
qed


lemma attention_weights_shapes:
  assumes "dot_product_attention_weights q k bias deterministic dropout_rate dropout = Inr w"
  shows "\<exists>B S H D K. shape q = [B, S, H, D] \<and> shape k = [B, K, H, D]"
  using assms
  by (auto simp add: dot_product_attention_weights_def split: list.splits if_splits)

lemma cache_and_bias_causal:
  assumes run: "cache_and_bias finfo_min cache init_cache batch_size q k v attention_mask
                  (make_causal_mask M) = Inr (q', k', v', bias, cache')"
    and le: "shape q ! 1 \<le> M" "shape k ! 1 \<le> M"
    and idx: "b < batch_size" "i < shape q' ! 1" "j < shape k' ! 1" "i < j"
  shows "shape bias = [batch_size, 1, shape q' ! 1, shape k' ! 1] \<and> elem bias [b, 0, i, j] = finfo_min"
proof (cases cache)
  case (Some c)
  with run cached_call_raises show ?thesis by blast
next
  case None
  show ?thesis
  proof (cases init_cache)
    case True
    with None run have "q' = q" "k' = k"
      and "attention_bias finfo_min
             (Some \<lparr>key = zeros (shape k), val = zeros (shape k), index = 0\<rparr>)
             batch_size q k attention_mask (make_causal_mask M) = Inr bias"
      by (auto simp add: cache_and_bias_def concatenate_to_cache_def bind_err_eq_Inr)
    with idx show ?thesis by (intro attention_bias_fresh_cache) simp_all
  next
    case False
    with None run have "q' = q" "k' = k"
      and "attention_bias finfo_min None batch_size q k attention_mask (make_causal_mask M)
             = Inr bias"
      by (auto simp add: cache_and_bias_def bind_err_eq_Inr)
    with idx le show ?thesis by (intro attention_bias_no_cache) simp_all
  qed
qed

text \<open>
  Claim C3, as the code has it. Whatever the cache collection and \<^verbatim>\<open>init_cache\<close>, when
  the new queries and keys are not longer than the causal mask built at setup and the
  attention call gets as far as its bias, then for every batch entry, every head and all
  positions \<open>i < j\<close>: the bias added to the score of query \<open>i\<close> and key \<open>j\<close> is the
  representable minimum \<^verbatim>\<open>finfo.min\<close>; and in a call without dropout, for every key
  \<open>j0\<close> that query \<open>i\<close> may attend to (bias 0), the attention weight from \<open>i\<close> to \<open>j\<close>
  is at most \<open>exp (finfo.min + score i j - score i j0)\<close>, which is zero in the working
  precision. A query with no key that it may attend to is not covered: its weights are
  uniform.
\<close>

theorem causal_masking:
  assumes run: "cache_and_bias finfo_min cache init_cache batch_size q k v attention_mask
                  (make_causal_mask M) = Inr (q', k', v', bias, cache')"
    and le: "shape q ! 1 \<le> M" "shape k ! 1 \<le> M"
    and idx: "b < batch_size" "i < shape q' ! 1" "j < shape k' ! 1" "i < j"
  shows "elem bias (broadcast_index (shape bias) [b, h, i, j]) = finfo_min
       \<and> (\<forall>w j0. dot_product_attention_weights q' k' bias deterministic dropout_rate dropout = Inr w
              \<and> (deterministic \<or> dropout_rate \<le> 0)
              \<and> shape q' ! 0 = batch_size \<and> h < shape q' ! 2
              \<and> j0 < shape k' ! 1 \<and> elem bias (broadcast_index (shape bias) [b, h, i, j0]) = 0
            \<longrightarrow> elem w [b, h, i, j]
                  \<le> exp (finfo_min + (attention_score q' k' b h i j - attention_score q' k' b h i j0)))"
proof -
  from cache_and_bias_causal [OF run le idx]
  have sh: "shape bias = [batch_size, 1, shape q' ! 1, shape k' ! 1]"
    and el: "elem bias [b, 0, i, j] = finfo_min"
    by blast+
  have bi: "broadcast_index (shape bias) [b, h, i, j'] = [b, 0, i, j']" if "j' < shape k' ! 1" for j'
    unfolding sh using idx(1,2) that by (rule broadcast_index_heads_bias)
  have first: "elem bias (broadcast_index (shape bias) [b, h, i, j]) = finfo_min"
    using bi [OF idx(3)] el by simp
  have second: "elem w [b, h, i, j]
                  \<le> exp (finfo_min + (attention_score q' k' b h i j - attention_score q' k' b h i j0))"
    if w: "dot_product_attention_weights q' k' bias deterministic dropout_rate dropout = Inr w"
      and det: "deterministic \<or> dropout_rate \<le> 0"
      and bs: "shape q' ! 0 = batch_size" and h: "h < shape q' ! 2"
      and j0: "j0 < shape k' ! 1" "elem bias (broadcast_index (shape bias) [b, h, i, j0]) = 0"
    for w j0
  proof -
    from attention_weights_shapes [OF w] obtain B S H D K where
      shq: "shape q' = [B, S, H, D]" and shk: "shape k' = [B, K, H, D]"
      by blast
    have B: "B = batch_size" using bs shq by simp
    have shb: "shape bias = [B, 1, S, K]" using sh shq shk B by simp
    have ix: "b < B" "h < H" "i < S" "j < K" "j0 < K"
      using idx h j0(1) shq shk B by simp_all
    let ?f = "\<lambda>j'. attention_score q' k' b h i j' + elem bias [b, 0, i, j']"
    have "elem w [b, h, i, j] = exp (?f j) / (\<Sum>j'<K. exp (?f j'))"
      by (rule attention_weights_elem [OF shq shk shb det w ix(1,2,3,4)])
    also have "\<dots> \<le> exp (?f j - ?f j0)"
      by (rule softmax_ratio_bound [OF ix(5)])
    also have "?f j - ?f j0
               = finfo_min + (attention_score q' k' b h i j - attention_score q' k' b h i j0)"
      using el j0(2) bi [OF j0(1)] by simp
    finally show ?thesis .
  qed
  from first second show ?thesis by blast
qed

lemma causal_example_bias:
  "\<exists>bias. attention_bias (- 3) None 1 (zeros [1, 2, 1, 1]) (zeros [1, 2, 1, 1])
       (tensor_of [1, 2] (\<lambda>idx. 1)) (make_causal_mask 2) = Inr bias
     \<and> shape bias = [1, 1, 2, 2] \<and> elem bias [0, 0, 0, 0] = 0"
  by (simp add: attention_bias_def zeros_def slice_2_3_def
      make_causal_mask_def broadcast_to_def expand_dims_m3_m2_def combine_masks_def tmap2_def
      broadcast_shapes_def broadcast_index_def tmap_def Let_def)

theorem causal_masking_witness:
  "\<exists>q' k' v' bias cache' w.
     cache_and_bias (- 3) None False 1
       (zeros [1, 2, 1, 1]) (zeros [1, 2, 1, 1]) (zeros [1, 2, 1, 1])
       (tensor_of [1, 2] (\<lambda>idx. 1)) (make_causal_mask 2) = Inr (q', k', v', bias, cache')
     \<and> dot_product_attention_weights q' k' bias True 0 (\<lambda>x. x) = Inr w
     \<and> elem bias (broadcast_index (shape bias) [0, 0, 0, 1]) = - 3
     \<and> elem w [0, 0, 0, 1]
         \<le> exp (- 3 + (attention_score q' k' 0 0 0 1 - attention_score q' k' 0 0 0 0))"
proof -
  let ?x = "zeros [1, 2, 1, 1]"
  let ?am = "tensor_of [1, 2] (\<lambda>idx. 1 :: int)"
  from causal_example_bias obtain bias where
    ab: "attention_bias (- 3) None 1 ?x ?x ?am (make_causal_mask 2) = Inr bias"
    and shb: "shape bias = [1, 1, 2, 2]" and b0: "elem bias [0, 0, 0, 0] = 0"
    by blast
  from ab have run: "cache_and_bias (- 3) None False 1 ?x ?x ?x ?am (make_causal_mask 2)
                    = Inr (?x, ?x, ?x, bias, None)"
    by (simp add: cache_and_bias_def)
  have "\<exists>w. dot_product_attention_weights ?x ?x bias True 0 (\<lambda>x. x) = Inr w
           \<and> shape w = [1, 1, 2, 2]"
    by (rule attention_weights_returns) (simp_all add: zeros_def shb)
  then obtain w where w: "dot_product_attention_weights ?x ?x bias True 0 (\<lambda>x. x) = Inr w"
    by blast
  have b0': "elem bias (broadcast_index (shape bias) [0, 0, 0, 0]) = 0"
    using b0 by (simp add: shb broadcast_index_def)
  have c: "elem bias (broadcast_index (shape bias) [0, 0, 0, 1]) = - 3
       \<and> (\<forall>w j0. dot_product_attention_weights ?x ?x bias True 0 (\<lambda>x. x) = Inr w
              \<and> (True \<or> (0 :: real) \<le> 0)
              \<and> shape ?x ! 0 = 1 \<and> 0 < shape ?x ! 2
              \<and> j0 < shape ?x ! 1 \<and> elem bias (broadcast_index (shape bias) [0, 0, 0, j0]) = 0
            \<longrightarrow> elem w [0, 0, 0, 1]
                  \<le> exp (- 3 + (attention_score ?x ?x 0 0 0 1 - attention_score ?x ?x 0 0 0 j0)))"
    by (rule causal_masking [OF run]) (simp_all add: zeros_def)
  then have bound: "elem w [0, 0, 0, 1]
                  \<le> exp (- 3 + (attention_score ?x ?x 0 0 0 1 - attention_score ?x ?x 0 0 0 0))"
    using w b0' by (simp add: zeros_def)
  from run w c bound show ?thesis by blast
qed

lemma sum_three: "(\<Sum>j<(3 :: nat). g j) = g 0 + g 1 + (g 2 :: real)"
  by (simp add: numeral_3_eq_3 lessThan_Suc numeral_2_eq_2)

lemma third_of_three: "(x :: real) \<noteq> 0 \<Longrightarrow> x / (x + x + x) = 1 / 3"
  by (simp add: field_simps)

lemma fully_masked_row_bias:
  "\<exists>bias. attention_bias (- 340282346638528859811704183484516925440) None 1
       (zeros [1, 3, 1, 1]) (zeros [1, 3, 1, 1])
       (tensor_of [1, 3] (\<lambda>idx. if idx ! 1 = 0 then 0 else 1)) (make_causal_mask 3) = Inr bias
     \<and> shape bias = [1, 1, 3, 3]
     \<and> elem bias [0, 0, 0, 0] = - 340282346638528859811704183484516925440
     \<and> elem bias [0, 0, 0, 1] = - 340282346638528859811704183484516925440
     \<and> elem bias [0, 0, 0, 2] = - 340282346638528859811704183484516925440"
  by (simp add: attention_bias_def zeros_def slice_2_3_def
      make_causal_mask_def broadcast_to_def expand_dims_m3_m2_def combine_masks_def tmap2_def
      broadcast_shapes_def broadcast_index_def tmap_def Let_def)

text \<open>
  The claim as stated fails on a query that the caller's attention mask leaves without
  any key: every score of its row gets \<^verbatim>\<open>finfo.min\<close>, the softmax cancels it, and the
  weights are uniform. For one sequence of three tokens with
  \<^verbatim>\<open>attention_mask = [[0, 1, 1]]\<close> and the \<^verbatim>\<open>float32\<close> minimum, the weight from
  query 0 to the later key 1 is \<open>1 / 3\<close>.
\<close>

theorem causal_weight_fully_masked_row:
  "\<exists>q' k' v' bias cache' w.
     cache_and_bias (- 340282346638528859811704183484516925440) None False 1
       (zeros [1, 3, 1, 1]) (zeros [1, 3, 1, 1]) (zeros [1, 3, 1, 1])
       (tensor_of [1, 3] (\<lambda>idx. if idx ! 1 = 0 then 0 else 1)) (make_causal_mask 3)
       = Inr (q', k', v', bias, cache')
     \<and> dot_product_attention_weights q' k' bias True 0 (\<lambda>x. x) = Inr w
     \<and> elem w [0, 0, 0, 1] = 1 / 3"
proof -
  let ?m = "- 340282346638528859811704183484516925440 :: real"
  let ?x = "zeros [1, 3, 1, 1]"
  let ?am = "tensor_of [1, 3] (\<lambda>idx. if idx ! 1 = 0 then 0 else 1 :: int)"
  from fully_masked_row_bias obtain bias where
    ab: "attention_bias ?m None 1 ?x ?x ?am (make_causal_mask 3) = Inr bias"
    and shb: "shape bias = [1, 1, 3, 3]"
    and b: "elem bias [0, 0, 0, 0] = ?m" "elem bias [0, 0, 0, 1] = ?m" "elem bias [0, 0, 0, 2] = ?m"
    by blast
  from ab have run: "cache_and_bias ?m None False 1 ?x ?x ?x ?am (make_causal_mask 3)
                    = Inr (?x, ?x, ?x, bias, None)"
    by (simp add: cache_and_bias_def)
  have shx: "shape ?x = [1, 3, 1, 1]" by (simp add: zeros_def)
  have "\<exists>w. dot_product_attention_weights ?x ?x bias True 0 (\<lambda>x. x) = Inr w
           \<and> shape w = [1, 1, 3, 3]"
    by (rule attention_weights_returns) (simp_all add: zeros_def shb)
  then obtain w where w: "dot_product_attention_weights ?x ?x bias True 0 (\<lambda>x. x) = Inr w"
    by blast
  have sc: "attention_score ?x ?x 0 0 0 j = 0" for j
    by (simp add: attention_score_def zeros_def)
  have "elem w [0, 0, 0, 1]
        = exp (attention_score ?x ?x 0 0 0 1 + elem bias [0, 0, 0, 1])
            / (\<Sum>j'<3. exp (attention_score ?x ?x 0 0 0 j' + elem bias [0, 0, 0, j']))"
    by (rule attention_weights_elem [OF shx shx shb _ w]) simp_all
  also have "\<dots> = exp ?m / (exp ?m + exp ?m + exp ?m)"
    unfolding sum_three sc b by simp
  also have "\<dots> = 1 / 3"
    by (rule third_of_three) simp
  finally have "elem w [0, 0, 0, 1] = 1 / 3" .
  with run w show ?thesis by blast
qed

end
